theory Spec2Isabelle
  imports Complex_Main
begin

section \<open>Track knowledge (ai\_racing\_agent.py, class MonacoTrackKnowledge)\<close>

text \<open>
  Python floats are modelled as \<^typ>\<open>real\<close>: the development idealises IEEE
  arithmetic (no rounding, no infinities, no NaN).  Every other feature of the source is
  kept: dictionaries with a fixed key set are records, a key that may be absent is an
  option, exceptions are values of the type \<open>error\<close>.
\<close>

datatype error = IndexError | KeyError | ZeroDivisionError | TypeError

text \<open>One entry of \<open>verstappen_data['telemetry']\<close> as loaded from JSON.  The key
  \<open>distance\<close> is optional; \<open>brake\<close> is the boolean brake flag of the telemetry source.\<close>

record RawPoint =
  raw_x :: real
  raw_y :: real
  raw_z :: real
  raw_speed :: real
  raw_throttle :: real
  raw_brake :: bool
  raw_distance :: "real option"

text \<open>A telemetry entry once \<open>__init__\<close> has made sure that \<open>distance\<close> is present.\<close>

record Sample =
  t_distance :: real
  t_x :: real
  t_y :: real
  t_z :: real
  t_speed :: real
  t_throttle :: real
  t_brake :: bool

record LinePoint =
  rl_distance :: real
  rl_x :: real
  rl_y :: real
  rl_speed :: real
  rl_throttle :: real
  rl_brake :: bool

record BrakingZone =
  start_distance :: real
  end_distance :: real
  entry_speed :: real
  exit_speed :: real
  braking_distance :: real

record Apex =
  ap_distance :: real
  ap_x :: real
  ap_y :: real
  ap_speed :: real

record Turn =
  apex_distance :: real
  apex_speed :: real
  braking_point :: real
  turn_braking_distance :: real
  turn_entry_speed :: real
  apex_coords :: "real \<times> real"

record MonacoTrackKnowledge =
  telemetry :: "Sample list"
  track_length :: real
  racing_line :: "LinePoint list"
  braking_zones :: "BrakingZone list"
  apex_points :: "Apex list"
  critical_turns :: "Turn list"

subsection \<open>\<open>__init__\<close>: filling in the distance\<close>

text \<open>The loop of \<open>__init__\<close> that runs when the first entry has no \<open>distance\<close>:
  \<open>d\<close> is the running sum, \<open>prev\<close> the entry before the current one.\<close>

fun cumulative :: "real \<Rightarrow> RawPoint \<Rightarrow> RawPoint list \<Rightarrow> real list" where
  "cumulative d prev [] = []"
| "cumulative d prev (p # ps) =
     (let dx = raw_x p - raw_x prev;
          dy = raw_y p - raw_y prev;
          dz = raw_z p - raw_z prev;
          d' = d + sqrt (dx\<^sup>2 + dy\<^sup>2 + dz\<^sup>2)
      in d' # cumulative d' p ps)"

definition computed_distances :: "RawPoint list \<Rightarrow> real list" where
  "computed_distances ps = (case ps of [] \<Rightarrow> [] | p # rest \<Rightarrow> 0 # cumulative 0 p rest)"

definition with_distance :: "RawPoint \<Rightarrow> real \<Rightarrow> Sample" where
  "with_distance p d =
     \<lparr>t_distance = d, t_x = raw_x p, t_y = raw_y p, t_z = raw_z p,
      t_speed = raw_speed p, t_throttle = raw_throttle p, t_brake = raw_brake p\<rparr>"

text \<open>Reading \<open>t['distance']\<close> of every entry (as \<open>max(t['distance'] for t in ...)\<close>
  does first): an entry without the key raises \<open>KeyError\<close>.\<close>

fun read_distances :: "RawPoint list \<Rightarrow> error + Sample list" where
  "read_distances [] = Inr []"
| "read_distances (p # ps) =
     (case raw_distance p of
        None \<Rightarrow> Inl KeyError
      | Some d \<Rightarrow> (case read_distances ps of
                    Inl e \<Rightarrow> Inl e
                  | Inr ss \<Rightarrow> Inr (with_distance p d # ss)))"

definition load_telemetry :: "RawPoint list \<Rightarrow> error + Sample list" where
  "load_telemetry raw =
     (case raw of
        [] \<Rightarrow> Inl IndexError
      | p # _ \<Rightarrow>
          (if raw_distance p = None
           then Inr (map2 with_distance raw (computed_distances raw))
           else read_distances raw))"

subsection \<open>Derived structures\<close>

definition extract_racing_line :: "Sample list \<Rightarrow> LinePoint list" where
  "extract_racing_line tel =
     map (\<lambda>t. \<lparr>rl_distance = t_distance t, rl_x = t_x t, rl_y = t_y t,
                rl_speed = t_speed t, rl_throttle = t_throttle t, rl_brake = t_brake t\<rparr>) tel"

text \<open>The inner \<open>while\<close> loop of \<open>_find_braking_zones\<close>, run on the entries from
  index \<open>i\<close> on: it returns the first entry without brake, or \<open>None\<close> when the list ends
  first (\<open>j = len(self.telemetry)\<close>).\<close>

fun brake_end :: "Sample list \<Rightarrow> Sample option" where
  "brake_end [] = None"
| "brake_end (t # ts) = (if t_brake t then brake_end ts else Some t)"

definition braking_zone_at :: "Sample list \<Rightarrow> nat \<Rightarrow> BrakingZone list" where
  "braking_zone_at tel i =
     (let t = tel ! i in
      if t_brake t \<and> (i = 0 \<or> \<not> t_brake (tel ! (i - 1)))
      then (case brake_end (drop i tel) of
              None \<Rightarrow> []
            | Some e \<Rightarrow>
                [\<lparr>start_distance = t_distance t, end_distance = t_distance e,
                  entry_speed = t_speed t, exit_speed = t_speed e,
                  braking_distance = t_distance e - t_distance t\<rparr>])
      else [])"

definition find_braking_zones :: "Sample list \<Rightarrow> BrakingZone list" where
  "find_braking_zones tel = concat (map (braking_zone_at tel) [0 ..< length tel])"

definition window :: nat where
  "window = 20"

text \<open>\<open>speeds = [self.telemetry[j]['speed'] for j in range(i - window, i + window)]\<close>\<close>

definition window_speeds :: "Sample list \<Rightarrow> nat \<Rightarrow> real list" where
  "window_speeds tel i = map (\<lambda>j. t_speed (tel ! j)) [i - window ..< i + window]"

definition is_apex :: "Sample list \<Rightarrow> nat \<Rightarrow> bool" where
  "is_apex tel i \<longleftrightarrow>
     t_speed (tel ! i) = min_list (window_speeds tel i) \<and> t_speed (tel ! i) < 150"

definition apex_of :: "Sample \<Rightarrow> Apex" where
  "apex_of t = \<lparr>ap_distance = t_distance t, ap_x = t_x t, ap_y = t_y t, ap_speed = t_speed t\<rparr>"

text \<open>\<open>for i in range(window, len(self.telemetry) - window)\<close>: the range is empty when
  the list has fewer than \<open>2 * window + 1\<close> entries, as the truncating subtraction on
  \<^typ>\<open>nat\<close> gives here.\<close>

definition find_apex_points :: "Sample list \<Rightarrow> Apex list" where
  "find_apex_points tel =
     map (\<lambda>i. apex_of (tel ! i)) (filter (is_apex tel) [window ..< length tel - window])"

definition zone_matches :: "Apex \<Rightarrow> BrakingZone \<Rightarrow> bool" where
  "zone_matches apex bz \<longleftrightarrow>
     start_distance bz < ap_distance apex \<and> ap_distance apex < end_distance bz + 100"

definition turn_of :: "Apex \<Rightarrow> BrakingZone \<Rightarrow> Turn" where
  "turn_of apex bz =
     \<lparr>apex_distance = ap_distance apex, apex_speed = ap_speed apex,
      braking_point = start_distance bz, turn_braking_distance = braking_distance bz,
      turn_entry_speed = entry_speed bz, apex_coords = (ap_x apex, ap_y apex)\<rparr>"

fun analyze_critical_turns :: "BrakingZone list \<Rightarrow> Apex list \<Rightarrow> Turn list" where
  "analyze_critical_turns bzs [] = []"
| "analyze_critical_turns bzs (apex # rest) =
     (case find (zone_matches apex) bzs of
        None \<Rightarrow> analyze_critical_turns bzs rest
      | Some bz \<Rightarrow> turn_of apex bz # analyze_critical_turns bzs rest)"

text \<open>\<open>max(t['distance'] for t in self.telemetry)\<close> on a non-empty list.\<close>

definition max_distance :: "Sample list \<Rightarrow> real" where
  "max_distance tel = fold max (map t_distance (tl tel)) (t_distance (hd tel))"

definition init_track :: "RawPoint list \<Rightarrow> error + MonacoTrackKnowledge" where
  "init_track raw =
     (case load_telemetry raw of
        Inl e \<Rightarrow> Inl e
      | Inr tel \<Rightarrow>
          (let bzs = find_braking_zones tel; apexes = find_apex_points tel in
           Inr \<lparr>telemetry = tel, track_length = max_distance tel,
                racing_line = extract_racing_line tel, braking_zones = bzs,
                apex_points = apexes,
                critical_turns = analyze_critical_turns bzs apexes\<rparr>))"

subsection \<open>Queries\<close>

text \<open>The loop of \<open>get_nearest_line_point\<close>.  The pair \<open>(min_dist, nearest)\<close> starts as
  \<open>(inf, None)\<close>, which is \<open>None\<close> here; every distance is below \<open>inf\<close>.\<close>

fun nearest_scan ::
  "real \<Rightarrow> real \<Rightarrow> (real \<times> LinePoint) option \<Rightarrow> LinePoint list \<Rightarrow> (real \<times> LinePoint) option"
where
  "nearest_scan x y best [] = best"
| "nearest_scan x y best (p # ps) =
     (let dist = sqrt ((rl_x p - x)\<^sup>2 + (rl_y p - y)\<^sup>2) in
      nearest_scan x y
        (case best of
           None \<Rightarrow> Some (dist, p)
         | Some (min_dist, q) \<Rightarrow> if dist < min_dist then Some (dist, p) else best)
        ps)"

definition get_nearest_line_point :: "LinePoint list \<Rightarrow> real \<Rightarrow> real \<Rightarrow> LinePoint option" where
  "get_nearest_line_point line x y = map_option snd (nearest_scan x y None line)"


section \<open>Vehicle dynamics (f1\_physics\_simulator.py)\<close>

record CarState =
  car_x :: real
  car_y :: real
  heading :: real
  speed :: real
  vx :: real
  vy :: real
  throttle :: real
  brake :: real
  steering :: real
  gear :: int
  rpm :: int
  tire_temp :: real
  fuel_kg :: real
  lap_time :: real
  distance :: real

definition CarState_default :: CarState where
  "CarState_default =
     \<lparr>car_x = 0, car_y = 0, heading = 0, speed = 0, vx = 0, vy = 0,
      throttle = 0, brake = 0, steering = 0, gear = 1, rpm = 0,
      tire_temp = 80, fuel_kg = 100, lap_time = 0, distance = 0\<rparr>"

record CarPhysics =
  mass :: real
  drag_coefficient :: real
  frontal_area :: real
  downforce_coefficient :: real
  max_power :: real
  max_rpm :: int
  idle_rpm :: int
  power_curve_peak :: int
  gear_ratios :: "real list"
  final_drive :: real
  max_brake_force :: real
  brake_balance :: real
  tire_grip_coefficient :: real
  tire_optimal_temp :: real
  tire_optimal_slip :: real
  track_friction :: real

text \<open>\<open>CarPhysics()\<close>, with the gear ratios that \<open>__post_init__\<close> fills in.\<close>

definition CarPhysics_default :: CarPhysics where
  "CarPhysics_default =
     \<lparr>mass = 798, drag_coefficient = 0.9, frontal_area = 1.5, downforce_coefficient = 3,
      max_power = 710000, max_rpm = 15000, idle_rpm = 5000, power_curve_peak = 11000,
      gear_ratios = [3.5, 2.8, 2.2, 1.8, 1.5, 1.3, 1.15, 1],
      final_drive = 3.5, max_brake_force = 18000, brake_balance = 0.58,
      tire_grip_coefficient = 1.4, tire_optimal_temp = 90, tire_optimal_slip = 10,
      track_friction = 1\<rparr>"

record F1PhysicsSimulator =
  physics :: CarPhysics
  dt :: real
  air_density :: real
  gravity :: real

text \<open>\<open>F1PhysicsSimulator.__init__\<close>; \<open>new_simulator CarPhysics_default\<close> is
  \<open>F1PhysicsSimulator()\<close>.\<close>

definition new_simulator :: "CarPhysics \<Rightarrow> F1PhysicsSimulator" where
  "new_simulator p = \<lparr>physics = p, dt = 0.01, air_density = 1.2, gravity = 9.81\<rparr>"

text \<open>\<open>np.clip(v, lo, hi)\<close>\<close>

definition clip :: "real \<Rightarrow> real \<Rightarrow> real \<Rightarrow> real" where
  "clip v lo hi = min (max v lo) hi"

text \<open>\<open>int(r)\<close> on a float truncates toward zero.\<close>

definition py_int :: "real \<Rightarrow> int" where
  "py_int r = (if 0 \<le> r then \<lfloor>r\<rfloor> else \<lceil>r\<rceil>)"

text \<open>\<open>a % b\<close> on floats takes the sign of the divisor.\<close>

definition py_fmod :: "real \<Rightarrow> real \<Rightarrow> real" where
  "py_fmod a b = a - b * of_int \<lfloor>a / b\<rfloor>"

text \<open>A division by \<open>power_curve_peak\<close>: zero raises.\<close>

definition calculate_engine_power :: "F1PhysicsSimulator \<Rightarrow> int \<Rightarrow> real \<Rightarrow> error + real" where
  "calculate_engine_power sim rpm_in thr =
     (let p = physics sim;
          rpm1 = (if rpm_in < idle_rpm p then idle_rpm p else rpm_in);
          rpm2 = (if rpm1 > max_rpm p then max_rpm p else rpm1)
      in if power_curve_peak p = 0 then Inl ZeroDivisionError
         else
           (let rpm_ratio = of_int rpm2 / of_int (power_curve_peak p);
                power_factor = exp (- 0.5 * ((rpm_ratio - 1)\<^sup>2) / 0.3)
            in Inr (max_power p * power_factor * (thr / 100))))"

definition calculate_aerodynamic_forces :: "F1PhysicsSimulator \<Rightarrow> real \<Rightarrow> real \<times> real" where
  "calculate_aerodynamic_forces sim v =
     (let p = physics sim;
          drag = 0.5 * air_density sim * v\<^sup>2 * drag_coefficient p * frontal_area p;
          downforce = 0.5 * air_density sim * v\<^sup>2 * downforce_coefficient p * frontal_area p
      in (drag, downforce))"

definition calculate_braking_force ::
  "F1PhysicsSimulator \<Rightarrow> real \<Rightarrow> real \<Rightarrow> real \<Rightarrow> real" where
  "calculate_braking_force sim brake_input v downforce =
     (let p = physics sim;
          normal_force = mass p * gravity sim + downforce;
          max_brake = normal_force * tire_grip_coefficient p
      in min (max_brake_force p * (brake_input / 100)) max_brake)"

text \<open>The block \<open>CRITICAL TRACTION MODELING\<close> of \<open>update_car_state\<close>: the engine force
  from the power \<open>pw\<close>, capped by the traction available.  Both divisions are by a speed above
  \<open>0.5\<close>, respectively of at least \<open>100 / 3.6\<close>.\<close>

definition traction_limited ::
  "F1PhysicsSimulator \<Rightarrow> CarState \<Rightarrow> real \<Rightarrow> real \<Rightarrow> real" where
  "traction_limited sim s pw normal_force =
     (let p = physics sim; speed_kmh = speed s * 3.6 in
      if speed_kmh < 100 then
        (let desired_force =
               (if speed s > 0.5 then pw / speed s else 10000 * (throttle s / 100));
             base_grip = 0.85;
             speed_factor = speed_kmh / 100;
             effective_grip = base_grip + (tire_grip_coefficient p - base_grip) * speed_factor;
             max_traction = normal_force * effective_grip
         in min desired_force max_traction)
      else
        (let engine_force = pw / speed s;
             max_traction = normal_force * tire_grip_coefficient p
         in min engine_force max_traction))"

text \<open>The block \<open>Engine force calculation\<close>: it sets \<open>state.rpm\<close> and yields the engine
  force.\<close>

definition engine_stage ::
  "F1PhysicsSimulator \<Rightarrow> CarState \<Rightarrow> real \<Rightarrow> error + (real \<times> CarState)" where
  "engine_stage sim s normal_force =
     (let p = physics sim in
      if gear s \<ge> 1 \<and> gear s \<le> int (length (gear_ratios p)) then
        (let gear_ratio = gear_ratios p ! nat (gear s - 1);
             rpm_raw =
               (if speed s > 0.1
                then (let wheel_rpm = (speed s * 60) / (2 * pi * 0.33)
                      in py_int (wheel_rpm * gear_ratio * final_drive p))
                else idle_rpm p);
             s' = s\<lparr>rpm := max (idle_rpm p) (min rpm_raw (max_rpm p))\<rparr>
         in case calculate_engine_power sim (rpm s') (throttle s') of
              Inl e \<Rightarrow> Inl e
            | Inr pw \<Rightarrow> Inr (traction_limited sim s' pw normal_force, s'))
      else Inr (0, s\<lparr>rpm := idle_rpm p\<rparr>))"

text \<open>The block \<open>Turning (simplified bicycle model)\<close>.  \<open>math.radians(30)\<close> is
  \<open>30 * (pi / 180)\<close>; the tangent is of an angle in \<open>(0, pi / 6]\<close>, so neither division
  is by zero.\<close>

definition turn_stage :: "F1PhysicsSimulator \<Rightarrow> CarState \<Rightarrow> CarState" where
  "turn_stage sim s =
     (if \<bar>steering s\<bar> > 0.01 then
        (let steering_angle = steering s * (30 * (pi / 180));
             wheelbase = 3.6;
             turning_radius = wheelbase / tan \<bar>steering_angle\<bar>;
             angular_velocity = speed s / turning_radius * sgn (steering s);
             h = heading s + angular_velocity * dt sim
         in s\<lparr>heading := py_fmod h (2 * pi)\<rparr>)
      else s)"

text \<open>The blocks \<open>Update position\<close> and \<open>Update distance and time\<close>.\<close>

definition move_stage :: "F1PhysicsSimulator \<Rightarrow> CarState \<Rightarrow> CarState" where
  "move_stage sim s =
     (let s1 = s\<lparr>vx := speed s * cos (heading s), vy := speed s * sin (heading s)\<rparr>;
          s2 = s1\<lparr>car_x := car_x s1 + vx s1 * dt sim, car_y := car_y s1 + vy s1 * dt sim\<rparr>
      in s2\<lparr>distance := distance s2 + speed s2 * dt sim, lap_time := lap_time s2 + dt sim\<rparr>)"

text \<open>The block \<open>Auto gearbox\<close>.\<close>

definition gearbox_stage :: "F1PhysicsSimulator \<Rightarrow> CarState \<Rightarrow> CarState" where
  "gearbox_stage sim s =
     (let p = physics sim in
      if of_int (rpm s) > of_int (max_rpm p) * (0.95::real) \<and> gear s < 8
      then s\<lparr>gear := gear s + 1\<rparr>
      else if of_int (rpm s) < of_int (max_rpm p) * (0.5::real) \<and> gear s > 1
      then s\<lparr>gear := gear s - 1\<rparr>
      else s)"

text \<open>\<open>update_car_state\<close>.  The source mutates \<open>state\<close> and returns it; the model
  returns the new state.  The division by \<open>mass\<close> raises when the mass is zero.\<close>

definition update_car_state ::
  "F1PhysicsSimulator \<Rightarrow> CarState \<Rightarrow> real \<Rightarrow> real \<Rightarrow> real \<Rightarrow> error + CarState" where
  "update_car_state sim s0 thr brk steer =
     (let p = physics sim;
          s1 = s0\<lparr>throttle := clip thr 0 100, brake := clip brk 0 100,
                  steering := clip steer (- 1) 1\<rparr>;
          (drag, downforce) = calculate_aerodynamic_forces sim (speed s1);
          normal_force = mass p * gravity sim + downforce
      in case engine_stage sim s1 normal_force of
           Inl e \<Rightarrow> Inl e
         | Inr (engine_force, s2) \<Rightarrow>
             (let brake_force = calculate_braking_force sim (brake s2) (speed s2) downforce;
                  net_force = engine_force - drag - brake_force
              in if mass p = 0 then Inl ZeroDivisionError
                 else
                   (let acceleration = net_force / mass p;
                        s3 = s2\<lparr>speed := max 0 (speed s2 + acceleration * dt sim)\<rparr>
                    in Inr (gearbox_stage sim (move_stage sim (turn_stage sim s3))))))"


section \<open>Track queries used by the environment (ai\_racing\_agent.py)\<close>

text \<open>The loop of \<open>_get_telemetry_index\<close>: \<open>min_diff\<close> starts as \<open>inf\<close> (here
  \<open>None\<close>), \<open>best_idx\<close> as \<open>0\<close>; \<open>i\<close> is the index of the entry at hand.\<close>

fun telemetry_index_scan ::
  "real \<Rightarrow> real option \<Rightarrow> nat \<Rightarrow> nat \<Rightarrow> Sample list \<Rightarrow> nat" where
  "telemetry_index_scan d min_diff best_idx i [] = best_idx"
| "telemetry_index_scan d min_diff best_idx i (pt # pts) =
     (let diff = \<bar>t_distance pt - d\<bar> in
      if (case min_diff of None \<Rightarrow> True | Some m \<Rightarrow> diff < m)
      then telemetry_index_scan d (Some diff) i (Suc i) pts
      else telemetry_index_scan d min_diff best_idx (Suc i) pts)"

definition get_telemetry_index :: "MonacoTrackKnowledge \<Rightarrow> real \<Rightarrow> nat" where
  "get_telemetry_index tr d = telemetry_index_scan d None 0 0 (telemetry tr)"

text \<open>The entry \<open>next_turn\<close> of the dictionary that \<open>get_track_section_info\<close> returns
  (with the default lookahead of \<open>200\<close> when the environment calls it).  The other entries
  are not modelled; of the exceptions the function can raise, \<open>self.telemetry[start_idx]\<close>
  fails on an empty telemetry and \<open>current_distance / self.track_length\<close> on a track of
  length zero.\<close>

definition section_next_turn ::
  "MonacoTrackKnowledge \<Rightarrow> real \<Rightarrow> real \<Rightarrow> error + Turn option" where
  "section_next_turn tr current_distance lookahead =
     (let lookahead_distance = current_distance + lookahead;
          upcoming_turns =
            filter (\<lambda>t. current_distance < apex_distance t \<and> apex_distance t \<le> lookahead_distance)
              (critical_turns tr)
      in if telemetry tr = [] then Inl IndexError
         else if track_length tr = 0 then Inl ZeroDivisionError
         else Inr (case upcoming_turns of [] \<Rightarrow> None | t # _ \<Rightarrow> Some t))"

text \<open>The entry \<open>optimal_speed\<close> of the dictionary that \<open>get_optimal_speed_and_angle\<close>
  returns.\<close>

definition optimal_speed :: "MonacoTrackKnowledge \<Rightarrow> real \<Rightarrow> error + real" where
  "optimal_speed tr current_distance =
     (let idx = get_telemetry_index tr current_distance in
      if idx < length (telemetry tr)
      then (case section_next_turn tr current_distance 200 of
              Inl e \<Rightarrow> Inl e
            | Inr _ \<Rightarrow> Inr (t_speed (telemetry tr ! idx)))
      else Inl IndexError)"

section \<open>The episode environment (train.py, class RacingEnv)\<close>

text \<open>The fields of \<open>TrainingConfig\<close> that the environment reads.\<close>

record TrainingConfig =
  max_steps_per_episode :: nat
  crash_penalty :: real
  completion_reward :: real
  progress_reward :: real
  speed_reward :: real
  time_penalty :: real

definition TrainingConfig_default :: TrainingConfig where
  "TrainingConfig_default =
     \<lparr>max_steps_per_episode = 10000, crash_penalty = - 50, completion_reward = 200,
      progress_reward = 1, speed_reward = 0.01, time_penalty = - 0.01\<rparr>"

text \<open>\<open>boundaries\<close> is \<open>None\<close> when \<open>has_boundaries\<close> is false, and the pair
  \<open>(left_boundary, right_boundary)\<close> of point lists otherwise.  \<open>lap_start_time\<close> holds a
  reading of the wall clock \<open>time.time()\<close>; the readings are inputs of \<open>reset\<close> and
  \<open>step\<close> below.\<close>

record RacingEnv =
  track :: MonacoTrackKnowledge
  config :: TrainingConfig
  simulator :: F1PhysicsSimulator
  boundaries :: "((real \<times> real) list \<times> (real \<times> real) list) option"
  state :: CarState
  steps :: nat
  last_distance :: real
  best_distance :: real
  lap_start_time :: real
  consecutive_no_progress :: nat
  position_history :: "(real \<times> real \<times> real \<times> real) list"
  last_x :: real
  last_y :: real
  total_physical_distance :: real

definition new_env ::
  "MonacoTrackKnowledge \<Rightarrow> TrainingConfig \<Rightarrow>
   ((real \<times> real) list \<times> (real \<times> real) list) option \<Rightarrow> RacingEnv" where
  "new_env tr cfg bnd =
     \<lparr>track = tr, config = cfg, simulator = new_simulator CarPhysics_default,
      boundaries = bnd, state = CarState_default, steps = 0, last_distance = 0,
      best_distance = 0, lap_start_time = 0, consecutive_no_progress = 0,
      position_history = [], last_x = 0, last_y = 0, total_physical_distance = 0\<rparr>"

datatype crash_reason = off_track | stuck | backwards

text \<open>The dictionary \<open>info\<close> of \<open>_calculate_reward\<close>: one constructor for each set of
  keys it can hold. \<open>Ongoing\<close> carries \<open>distance\<close>, \<open>speed\<close> and
  \<open>distance_from_line\<close>.\<close>

datatype info = Crash crash_reason | Completed real | Timeout | Ongoing real real real

text \<open>\<open>np.arctan2(dy, dx)\<close>\<close>

definition arctan2 :: "real \<Rightarrow> real \<Rightarrow> real" where
  "arctan2 dy dx =
     (if dx > 0 then arctan (dy / dx)
      else if dx < 0 then (if dy \<ge> 0 then arctan (dy / dx) + pi else arctan (dy / dx) - pi)
      else if dy > 0 then pi / 2
      else if dy < 0 then - (pi / 2)
      else 0)"

definition get_observation :: "RacingEnv \<Rightarrow> error + real list" where
  "get_observation env =
     (let s = state env in
      case get_nearest_line_point (racing_line (track env)) (car_x s) (car_y s) of
        None \<Rightarrow> Inl TypeError
      | Some nearest \<Rightarrow>
          (let pos_error = sqrt ((car_x s - rl_x nearest)\<^sup>2 + (car_y s - rl_y nearest)\<^sup>2) in
           case section_next_turn (track env) (distance s) 200 of
             Inl e \<Rightarrow> Inl e
           | Inr next_turn \<Rightarrow>
               (let (turn_dist, turn_severity, target_speed) =
                      (case next_turn of
                         Some t \<Rightarrow> (braking_point t - distance s, 1 - apex_speed t / 250,
                                    turn_entry_speed t)
                       | None \<Rightarrow> (1000, 0, 250))
                in case optimal_speed (track env) (distance s) of
                     Inl e \<Rightarrow> Inl e
                   | Inr opt \<Rightarrow>
                       Inr [speed s / 100, pos_error / 20, heading s / pi, distance s / 3300,
                            turn_dist / 500, turn_severity, opt / 100, target_speed / 100,
                            throttle s / 100, brake s / 100, steering s, tire_temp s / 100])))"

text \<open>\<open>reset\<close>; \<open>now\<close> is the value that \<open>time.time()\<close> returns.\<close>

definition reset :: "RacingEnv \<Rightarrow> real \<Rightarrow> error + (RacingEnv \<times> real list)" where
  "reset env now =
     (let line = racing_line (track env) in
      if line = [] then Inl IndexError
      else
        (let first = line ! 0;
             second = line ! (min 5 (length line - 1));
             dx = rl_x second - rl_x first;
             dy = rl_y second - rl_y first;
             s = (state env)\<lparr>car_x := rl_x first, car_y := rl_y first,
                    heading := arctan2 dy dx, speed := 8.3, gear := 2, rpm := 6000,
                    throttle := 0, brake := 0, steering := 0, distance := 0, lap_time := 0\<rparr>;
             env' = env\<lparr>state := s, steps := 0, last_distance := 0, best_distance := 0,
                      lap_start_time := now, consecutive_no_progress := 0,
                      position_history := [], last_x := car_x s, last_y := car_y s,
                      total_physical_distance := 0\<rparr>
         in case get_observation env' of
              Inl e \<Rightarrow> Inl e
            | Inr obs \<Rightarrow> Inr (env', obs)))"

text \<open>The two nested loops of \<open>_is_off_track\<close>.  \<open>min_dist_left\<close> and
  \<open>min_dist_right\<close> start as \<open>inf\<close> (here \<open>None\<close>).  \<open>is_left\<close> is the outcome of the
  test \<open>boundary == self.left_boundary\<close>, which compares the two lists by value.\<close>

definition min_inf :: "real option \<Rightarrow> real \<Rightarrow> real option" where
  "min_inf m d = (case m of None \<Rightarrow> Some d | Some v \<Rightarrow> Some (min v d))"

fun scan_boundary ::
  "bool \<Rightarrow> real \<Rightarrow> real \<Rightarrow> real option \<times> real option \<Rightarrow> (real \<times> real) list \<Rightarrow>
   real option \<times> real option" where
  "scan_boundary is_left x y acc [] = acc"
| "scan_boundary is_left x y acc (pt # pts) =
     (let dist = sqrt ((x - fst pt)\<^sup>2 + (y - snd pt)\<^sup>2) in
      scan_boundary is_left x y
        (if is_left then (min_inf (fst acc) dist, snd acc)
         else (fst acc, min_inf (snd acc) dist))
        pts)"

text \<open>\<open>m > 50\<close> for a value that may be \<open>inf\<close>.\<close>

definition exceeds :: "real option \<Rightarrow> real \<Rightarrow> bool" where
  "exceeds m bound = (case m of None \<Rightarrow> True | Some v \<Rightarrow> v > bound)"

definition is_off_track :: "RacingEnv \<Rightarrow> error + bool" where
  "is_off_track env =
     (let s = state env in
      case boundaries env of
        None \<Rightarrow>
          (case get_nearest_line_point (racing_line (track env)) (car_x s) (car_y s) of
             None \<Rightarrow> Inl TypeError
           | Some nearest \<Rightarrow>
               (let distance_from_line =
                      sqrt ((car_x s - rl_x nearest)\<^sup>2 + (car_y s - rl_y nearest)\<^sup>2)
                in Inr (distance_from_line > 25)))
      | Some (left_boundary, right_boundary) \<Rightarrow>
          (let acc1 = scan_boundary True (car_x s) (car_y s) (None, None) left_boundary;
               acc2 = scan_boundary (right_boundary = left_boundary) (car_x s) (car_y s)
                        acc1 right_boundary
           in Inr (exceeds (fst acc2) 50 \<and> exceeds (snd acc2) 50)))"

text \<open>\<open>_calculate_reward\<close>; \<open>now\<close> is the value that \<open>time.time()\<close> returns when the
  completion branch reads the clock.\<close>

definition calculate_reward ::
  "RacingEnv \<Rightarrow> real \<Rightarrow> real \<Rightarrow> real \<Rightarrow> error + (real \<times> bool \<times> info)" where
  "calculate_reward env step_distance progress_this_step now =
     (let s = state env; cfg = config env in
      case get_nearest_line_point (racing_line (track env)) (car_x s) (car_y s) of
        None \<Rightarrow> Inl TypeError
      | Some nearest \<Rightarrow>
          (let distance_from_line =
                 sqrt ((car_x s - rl_x nearest)\<^sup>2 + (car_y s - rl_y nearest)\<^sup>2)
           in case is_off_track env of
                Inl e \<Rightarrow> Inl e
              | Inr off \<Rightarrow>
                  if off then Inr (crash_penalty cfg, True, Crash off_track)
                  else if consecutive_no_progress env > 500
                  then Inr (crash_penalty cfg, True, Crash stuck)
                  else if speed s < 0
                  then Inr (crash_penalty cfg * 0.5, True, Crash backwards)
                  else if distance s \<ge> track_length (track env)
                  then (let lap = now - lap_start_time env;
                            reward = completion_reward cfg
                                     + (if lap < 100 then (100 - lap) * 2 else 0)
                        in Inr (reward, True, Completed lap))
                  else if steps env \<ge> max_steps_per_episode cfg
                  then (if track_length (track env) = 0 then Inl ZeroDivisionError
                        else Inr ((distance s / track_length (track env)) * 50, True, Timeout))
                  else
                    (let r1 = (if progress_this_step > 0
                               then progress_this_step * progress_reward cfg else 0);
                         r2 = r1 + (if distance_from_line < 15
                                    then (speed s * 3.6) * speed_reward cfg else 0);
                         r3 = r2 + (if distance_from_line < 10 then 0.1
                                    else if distance_from_line < 20 then 0.05 else 0);
                         r4 = r3 - (if \<bar>steering s\<bar> > 0.8 then 0.02 else 0);
                         r5 = r4 - (if brake s > 80 then 0.01 else 0);
                         reward = r5 + time_penalty cfg
                     in Inr (reward, False,
                             Ongoing (distance s) (speed s * 3.6) distance_from_line))))"

text \<open>The bookkeeping of \<open>step\<close> between the physics update and the reward: the
  position history, the re-anchored distance, the stuck counter, the progress trackers
  and the step count.  \<open>s1\<close> is the state after the physics update, \<open>nearest\<close> the
  racing-line point nearest to it.\<close>

definition bookkeeping :: "RacingEnv \<Rightarrow> CarState \<Rightarrow> LinePoint \<Rightarrow> RacingEnv" where
  "bookkeeping env s1 nearest =
     (let history =
            (if steps env mod 10 = 0
             then position_history env @ [(car_x s1, car_y s1, speed s1 * 3.6, distance s1)]
             else position_history env);
          s2 = s1\<lparr>distance := rl_distance nearest\<rparr>;
          physical_movement =
            sqrt ((car_x s2 - last_x env)\<^sup>2 + (car_y s2 - last_y env)\<^sup>2)
      in env\<lparr>state := s2,
             position_history := history,
             total_physical_distance := total_physical_distance env + physical_movement,
             consecutive_no_progress :=
               (if physical_movement < 0.01 then consecutive_no_progress env + 1 else 0),
             last_x := car_x s2, last_y := car_y s2,
             best_distance := max (best_distance env) (distance s2),
             last_distance := distance s2,
             steps := steps env + 1\<rparr>)"

text \<open>\<open>step\<close>.  The action is the triple \<open>(action[0], action[1], action[2])\<close>, \<open>now\<close>
  the clock reading of this step.  The result is the new environment together with the
  tuple that the source returns.\<close>

definition step ::
  "RacingEnv \<Rightarrow> real \<times> real \<times> real \<Rightarrow> real \<Rightarrow>
   error + (RacingEnv \<times> real list \<times> real \<times> bool \<times> info)" where
  "step env action now =
     (let (a0, a1, a2) = action;
          thr = clip ((a0 + 1) * 50) 0 100;
          brk = clip ((a1 + 1) * 50) 0 100;
          steer = clip a2 (- 1) 1;
          old_x = car_x (state env);
          old_y = car_y (state env)
      in case update_car_state (simulator env) (state env) thr brk steer of
           Inl e \<Rightarrow> Inl e
         | Inr s1 \<Rightarrow>
             (let step_distance = sqrt ((car_x s1 - old_x)\<^sup>2 + (car_y s1 - old_y)\<^sup>2)
              in case get_nearest_line_point (racing_line (track env)) (car_x s1) (car_y s1) of
                   None \<Rightarrow> Inl TypeError
                 | Some nearest \<Rightarrow>
                     (let progress_this_step = rl_distance nearest - last_distance env;
                          env' = bookkeeping env s1 nearest
                      in case calculate_reward env' step_distance progress_this_step now of
                           Inl e \<Rightarrow> Inl e
                         | Inr (reward, done, info0) \<Rightarrow>
                             (case get_observation env' of
                                Inl e \<Rightarrow> Inl e
                              | Inr obs \<Rightarrow> Inr (env', obs, reward, done, info0)))))"

text \<open>The loop \<open>while not done\<close> of \<open>PPOTrainer._run_episode\<close>, with the actions of
  the policy and the clock readings given as a list: it steps until an episode ends or
  the list is used up and returns the \<open>(reward, done, info)\<close> of every step taken.\<close>

fun rollout ::
  "RacingEnv \<Rightarrow> ((real \<times> real \<times> real) \<times> real) list \<Rightarrow>
   error + (RacingEnv \<times> (real \<times> bool \<times> info) list)" where
  "rollout env [] = Inr (env, [])"
| "rollout env ((action, now) # rest) =
     (case step env action now of
        Inl e \<Rightarrow> Inl e
      | Inr (env', obs, reward, done, info0) \<Rightarrow>
          if done then Inr (env', [(reward, done, info0)])
          else (case rollout env' rest of
                  Inl e \<Rightarrow> Inl e
                | Inr (env'', rs) \<Rightarrow> Inr (env'', (reward, done, info0) # rs)))"


section \<open>Concrete inputs\<close>

text \<open>The predicate "the point lies at \<open>(x, y)\<close>".\<close>

definition at_xy :: "real \<Rightarrow> real \<Rightarrow> LinePoint \<Rightarrow> bool" where
  "at_xy x y p \<longleftrightarrow> rl_x p = x \<and> rl_y p = y"

text \<open>Two racing-line points with the same coordinates and different speeds.\<close>

definition pA :: LinePoint where
  "pA = \<lparr>rl_distance = 0, rl_x = 0, rl_y = 0, rl_speed = 100, rl_throttle = 0,
          rl_brake = False\<rparr>"

definition pB :: LinePoint where
  "pB = \<lparr>rl_distance = 0, rl_x = 0, rl_y = 0, rl_speed = 90, rl_throttle = 0,
          rl_brake = False\<rparr>"

text \<open>A reference lap of 42 entries without the key \<open>distance\<close>: the first entry at the
  origin with the brake on, the 41 others at the same place one unit further, all at
  speed 100.\<close>

definition flat_first :: RawPoint where
  "flat_first = \<lparr>raw_x = 0, raw_y = 0, raw_z = 0, raw_speed = 100, raw_throttle = 0,
                  raw_brake = True, raw_distance = None\<rparr>"

definition flat_other :: RawPoint where
  "flat_other = \<lparr>raw_x = 1, raw_y = 0, raw_z = 0, raw_speed = 100, raw_throttle = 0,
                  raw_brake = False, raw_distance = None\<rparr>"

definition flat_raw :: "RawPoint list" where
  "flat_raw = flat_first # replicate 41 flat_other"

definition flat_tel :: "Sample list" where
  "flat_tel = with_distance flat_first 0 # replicate 41 (with_distance flat_other 1)"

definition track_of :: "Sample list \<Rightarrow> MonacoTrackKnowledge" where
  "track_of tel =
     \<lparr>telemetry = tel, track_length = max_distance tel,
      racing_line = extract_racing_line tel, braking_zones = find_braking_zones tel,
      apex_points = find_apex_points tel,
      critical_turns = analyze_critical_turns (find_braking_zones tel) (find_apex_points tel)\<rparr>"

text \<open>A reference lap of 42 entries with the key \<open>distance\<close>: entry \<open>i\<close> lies \<open>i\<close>
  units along the x axis, the brake is on at the first entry only.\<close>

definition line_raw_at :: "nat \<Rightarrow> RawPoint" where
  "line_raw_at i = \<lparr>raw_x = real i, raw_y = 0, raw_z = 0, raw_speed = 100, raw_throttle = 0,
                     raw_brake = (i = 0), raw_distance = Some (real i)\<rparr>"

definition line_raw :: "RawPoint list" where
  "line_raw = map line_raw_at [0 ..< 42]"

definition line_tel :: "Sample list" where
  "line_tel = map (\<lambda>i. with_distance (line_raw_at i) (real i)) [0 ..< 42]"

text \<open>41 telemetry entries: speed 100 at the first 40, speed 50 at the last.\<close>

definition dip_sample :: "real \<Rightarrow> Sample" where
  "dip_sample v = \<lparr>t_distance = 0, t_x = 0, t_y = 0, t_z = 0, t_speed = v, t_throttle = 0,
                    t_brake = False\<rparr>"

definition dip_tel :: "Sample list" where
  "dip_tel = replicate 40 (dip_sample 100) @ [dip_sample 50]"

text \<open>The action of a policy that leaves throttle, brake and steering untouched:
  \<open>throttle = (-1 + 1) * 50 = 0\<close>, \<open>brake = 0\<close>, \<open>steering = 0\<close>.\<close>

definition idle_action :: "real \<times> real \<times> real" where
  "idle_action = (- 1, - 1, 0)"

text \<open>The car of an environment with the default simulator stands still at the place
  recorded by the last step.\<close>

definition parked :: "RacingEnv \<Rightarrow> bool" where
  "parked env \<longleftrightarrow>
     simulator env = new_simulator CarPhysics_default \<and> speed (state env) = 0 \<and>
     last_x env = car_x (state env) \<and> last_y env = car_y (state env)"

text \<open>\<open>env\<close> is parked at the same place of the same track as \<open>env0\<close>.\<close>

definition parked_like :: "RacingEnv \<Rightarrow> RacingEnv \<Rightarrow> bool" where
  "parked_like env0 env \<longleftrightarrow>
     parked env \<and> track env = track env0 \<and> config env = config env0 \<and>
     boundaries env = boundaries env0 \<and> lap_start_time env = lap_start_time env0 \<and>
     car_x (state env) = car_x (state env0) \<and> car_y (state env) = car_y (state env0)"

text \<open>The \<open>(reward, done, info)\<close> part of what \<open>step\<close> returns.\<close>

definition outcome ::
  "error + (RacingEnv \<times> real list \<times> real \<times> bool \<times> info) \<Rightarrow> (real \<times> bool \<times> info) option" where
  "outcome r = (case r of Inl e \<Rightarrow> None | Inr (env, obs, rest) \<Rightarrow> Some rest)"

text \<open>A track of two samples, 0.05 units long, and environments on it: without
  boundary data, and with one boundary point on each side.\<close>

definition short_tel :: "Sample list" where
  "short_tel =
     [\<lparr>t_distance = 0, t_x = 0, t_y = 0, t_z = 0, t_speed = 100, t_throttle = 100,
       t_brake = False\<rparr>,
      \<lparr>t_distance = 1 / 20, t_x = 1 / 20, t_y = 0, t_z = 0, t_speed = 100, t_throttle = 100,
       t_brake = False\<rparr>]"

definition short_env :: RacingEnv where
  "short_env = new_env (track_of short_tel) TrainingConfig_default None"


text \<open>The car of \<open>env\<close> put at rest at the point \<open>(0, y)\<close>.\<close>

definition placed_at :: "RacingEnv \<Rightarrow> real \<Rightarrow> RacingEnv" where
  "placed_at env y = env\<lparr>state := (state env)\<lparr>car_x := 0, car_y := y, speed := 0\<rparr>,
                          last_x := 0, last_y := y\<rparr>"

text \<open>The environment that \<open>reset\<close> makes of \<open>short_env\<close> when the clock reads 0:
  the car at the first sample, heading along the x axis, rolling at 8.3.\<close>

definition started :: RacingEnv where
  "started = short_env\<lparr>state := CarState_default\<lparr>speed := 83 / 10, gear := 2, rpm := 6000\<rparr>\<rparr>"

text \<open>The loop of \<open>main()\<close> in f1\_physics\_simulator.py, run for \<open>n\<close> ticks from
  the state \<open>s0\<close> (\<open>CarState()\<close> in the source):
  \<open>state = sim.update_car_state(state, throttle=100, brake=0, steering=0)\<close> on every
  tick, with the simulator \<open>F1PhysicsSimulator()\<close>.\<close>

fun accelerate :: "CarState \<Rightarrow> nat \<Rightarrow> error + CarState" where
  "accelerate s0 0 = Inr s0"
| "accelerate s0 (Suc n) =
     (case accelerate s0 n of
        Inl e \<Rightarrow> Inl e
      | Inr s \<Rightarrow> update_car_state (new_simulator CarPhysics_default) s 100 0 0)"

section \<open>The nearest racing-line point\<close>

lemma nearest_scan_zero:
  "nearest_scan x y (Some (0, q)) ps = Some (0, q)"
  by (induction ps) (auto simp: Let_def not_sum_power2_lt_zero)

lemma dist_zero_iff:
  "sqrt ((a - x)\<^sup>2 + (b - y)\<^sup>2) = 0 \<longleftrightarrow> a = x \<and> b = y"
  by (simp add: sum_power2_eq_zero_iff)

lemma nearest_scan_hit:
  assumes "find (at_xy x y) ps = Some r"
    and "best = None \<or> (\<exists>m q. best = Some (m, q) \<and> 0 < m)"
  shows "nearest_scan x y best ps = Some (0, r)"
  using assms
proof (induction ps arbitrary: best)
  case Nil
  then show ?case by simp
next
  case (Cons p ps)
  let ?d = "sqrt ((rl_x p - x)\<^sup>2 + (rl_y p - y)\<^sup>2)"
  show ?case
  proof (cases "at_xy x y p")
    case True
    then have d0: "?d = 0" by (simp add: at_xy_def)
    from True Cons.prems(1) have r: "r = p" by simp
    from Cons.prems(2) d0 show ?thesis
      by (auto simp: r Let_def nearest_scan_zero)
  next
    case False
    then have "?d \<noteq> 0" unfolding at_xy_def dist_zero_iff by blast
    moreover have "0 \<le> ?d" by simp
    ultimately have dpos: "0 < ?d" by linarith
    from False Cons.prems(1) have f: "find (at_xy x y) ps = Some r" by simp
    let ?best' = "(case best of None \<Rightarrow> Some (?d, p)
         | Some (min_dist, q) \<Rightarrow> if ?d < min_dist then Some (?d, p) else best)"
    have "?best' = None \<or> (\<exists>m q. ?best' = Some (m, q) \<and> 0 < m)"
      using Cons.prems(2) dpos by (auto split: option.splits)
    from Cons.IH[OF f this] show ?thesis by (simp add: Let_def)
  qed
qed

lemma find_own_coordinates:
  "p \<in> set ps \<Longrightarrow> \<exists>r. find (at_xy (rl_x p) (rl_y p)) ps = Some r"
  by (cases "find (at_xy (rl_x p) (rl_y p)) ps") (auto simp: find_None_iff at_xy_def)

text \<open>
  Claim C7, as the code has it.  For every sample \<open>p\<close> of the racing line,
  \<open>get_nearest_line_point\<close> applied to the coordinates of \<open>p\<close> returns the first
  sample in sequence order that lies at these coordinates; its distance to the query is
  \<open>0\<close>, and it is \<open>p\<close> itself whenever no other sample of the line shares the
  coordinates of \<open>p\<close>.
\<close>

theorem nearest_line_point_roundtrip:
  assumes "p \<in> set line"
  shows "\<exists>r. get_nearest_line_point line (rl_x p) (rl_y p) = Some r
           \<and> find (at_xy (rl_x p) (rl_y p)) line = Some r
           \<and> sqrt ((rl_x r - rl_x p)\<^sup>2 + (rl_y r - rl_y p)\<^sup>2) = 0
           \<and> ((\<forall>q \<in> set line. at_xy (rl_x p) (rl_y p) q \<longrightarrow> q = p) \<longrightarrow> r = p)"
proof -
  from find_own_coordinates[OF assms]
  obtain r where r: "find (at_xy (rl_x p) (rl_y p)) line = Some r" by blast
  from nearest_scan_hit[OF r]
  have g: "get_nearest_line_point line (rl_x p) (rl_y p) = Some r"
    by (simp add: get_nearest_line_point_def)
  from r have at: "at_xy (rl_x p) (rl_y p) r" and mem: "r \<in> set line"
    by (auto simp: find_Some_iff)
  from at have "sqrt ((rl_x r - rl_x p)\<^sup>2 + (rl_y r - rl_y p)\<^sup>2) = 0"
    by (simp add: at_xy_def)
  with g r at mem show ?thesis by blast
qed

theorem nearest_line_point_roundtrip_witness:
  "pB \<in> set [pA, pB] \<and> get_nearest_line_point [pA, pB] (rl_x pB) (rl_y pB) = Some pA"
  using nearest_line_point_roundtrip[of pB "[pA, pB]"]
  by (simp add: at_xy_def pA_def pB_def)

text \<open>
  Claim C7 as stated fails where two samples share their coordinates: the query at the
  coordinates of the second sample \<open>pB\<close> returns the first sample \<open>pA\<close>, which differs
  from \<open>pB\<close> in its speed.
\<close>

theorem nearest_line_point_not_exact_sample:
  "pB \<in> set [pA, pB] \<and> get_nearest_line_point [pA, pB] (rl_x pB) (rl_y pB) \<noteq> Some pB"
  by (simp add: get_nearest_line_point_def pA_def pB_def)


section \<open>The order of the critical turns\<close>


lemma turns_from_apexes:
  "t \<in> set (analyze_critical_turns bzs aps) \<Longrightarrow> \<exists>a \<in> set aps. apex_distance t = ap_distance a"
  by (induction aps) (auto simp: turn_of_def split: option.splits)

lemma turns_sorted:
  "sorted_wrt (<) (map ap_distance aps) \<Longrightarrow>
   sorted_wrt (<) (map apex_distance (analyze_critical_turns bzs aps))"
proof (induction aps)
  case Nil
  then show ?case by simp
next
  case (Cons a aps)
  then show ?case
    by (auto simp: turn_of_def split: option.splits dest!: turns_from_apexes)
qed

lemma apexes_sorted:
  assumes "sorted_wrt (<) (map t_distance tel)"
  shows "sorted_wrt (<) (map ap_distance (find_apex_points tel))"
proof -
  have idx: "sorted_wrt (<) (filter (is_apex tel) [window ..< length tel - window])"
    by (simp add: sorted_wrt_filter)
  have "sorted_wrt (\<lambda>i j. t_distance (tel ! i) < t_distance (tel ! j))
          (filter (is_apex tel) [window ..< length tel - window])"
  proof (rule sorted_wrt_mono_rel[OF _ idx])
    fix i j
    assume "i \<in> set (filter (is_apex tel) [window ..< length tel - window])"
      and "j \<in> set (filter (is_apex tel) [window ..< length tel - window])"
      and "i < j"
    then have "i < j" "j < length tel" by auto
    with assms show "t_distance (tel ! i) < t_distance (tel ! j)"
      by (simp add: sorted_wrt_iff_nth_less)
  qed
  then show ?thesis
    by (simp add: find_apex_points_def sorted_wrt_map apex_of_def o_def)
qed

lemma init_track_of:
  "init_track raw = Inr tr \<Longrightarrow> \<exists>tel. load_telemetry raw = Inr tel \<and> tr = track_of tel"
  by (auto simp: init_track_def track_of_def Let_def split: sum.splits)

lemma cumulative_same: "cumulative d p (replicate n p) = replicate n d"
  by (induction n) (simp_all add: Let_def)

lemma flat_distances: "computed_distances flat_raw = 0 # replicate 41 1"
proof -
  have "replicate 41 flat_other = flat_other # replicate 40 flat_other"
    by (simp add: numeral_eq_Suc)
  then show ?thesis
    by (simp add: flat_raw_def computed_distances_def Let_def cumulative_same
        flat_first_def flat_other_def numeral_eq_Suc)
qed

lemma map2_replicate: "map2 f (replicate n a) (replicate n b) = replicate n (f a b)"
  by (induction n) simp_all

lemma flat_load: "load_telemetry flat_raw = Inr flat_tel"
proof -
  have "load_telemetry flat_raw = Inr (map2 with_distance flat_raw (computed_distances flat_raw))"
    by (simp add: load_telemetry_def flat_raw_def flat_first_def)
  also have "map2 with_distance flat_raw (computed_distances flat_raw) = flat_tel"
    unfolding flat_distances by (simp add: flat_raw_def flat_tel_def map2_replicate)
  finally show ?thesis .
qed

lemma flat_init: "init_track flat_raw = Inr (track_of flat_tel)"
  by (simp add: init_track_def flat_load track_of_def Let_def)

lemma flat_turns: "map apex_distance (critical_turns (track_of flat_tel)) = [1, 1]"
  by code_simp

lemma read_distances_map:
  "(\<And>i. i \<in> set xs \<Longrightarrow> raw_distance (f i) = Some (d i)) \<Longrightarrow>
   read_distances (map f xs) = Inr (map (\<lambda>i. with_distance (f i) (d i)) xs)"
  by (induction xs) simp_all

lemma load_with_first:
  "raw = p # rest \<Longrightarrow> raw_distance p \<noteq> None \<Longrightarrow> load_telemetry raw = read_distances raw"
  by (simp add: load_telemetry_def)

lemma line_load: "load_telemetry line_raw = Inr line_tel"
proof -
  have "line_raw = line_raw_at 0 # map line_raw_at [1 ..< 42]"
    by (simp add: line_raw_def upt_conv_Cons)
  then have "load_telemetry line_raw = read_distances line_raw"
    by (rule load_with_first) (simp add: line_raw_at_def)
  also have "\<dots> = Inr line_tel"
    unfolding line_raw_def line_tel_def
    by (rule read_distances_map) (simp add: line_raw_at_def)
  finally show ?thesis .
qed

lemma line_init: "init_track line_raw = Inr (track_of line_tel)"
  by (simp add: init_track_def line_load track_of_def Let_def)

lemma line_sorted: "sorted_wrt (<) (map t_distance (telemetry (track_of line_tel)))"
  by (simp add: track_of_def line_tel_def with_distance_def o_def sorted_wrt_map)

lemma line_turns: "map apex_distance (critical_turns (track_of line_tel)) = [20, 21]"
  by code_simp


text \<open>
  Claim C8, as the code has it.  For every track constructed from a reference sample
  sequence whose distances are strictly increasing along the sequence, the critical turns
  are strictly ordered by apex distance: the apex distance of turn \<open>i\<close> is below that of
  turn \<open>i + 1\<close>.
\<close>

theorem turns_strictly_ordered:
  assumes "init_track raw = Inr tr"
    and "sorted_wrt (<) (map t_distance (telemetry tr))"
    and "Suc i < length (critical_turns tr)"
  shows "apex_distance (critical_turns tr ! i) < apex_distance (critical_turns tr ! Suc i)"
proof -
  from init_track_of[OF assms(1)] obtain tel where tr: "tr = track_of tel" by blast
  from assms(2) have "sorted_wrt (<) (map t_distance tel)" by (simp add: tr track_of_def)
  then have "sorted_wrt (<) (map apex_distance (critical_turns tr))"
    by (simp add: tr track_of_def turns_sorted apexes_sorted)
  from sorted_wrt_nth_less[OF this, of i "Suc i"] assms(3) show ?thesis by simp
qed

theorem turns_strictly_ordered_witness:
  "init_track line_raw = Inr (track_of line_tel)
   \<and> sorted_wrt (<) (map t_distance (telemetry (track_of line_tel)))
   \<and> Suc 0 < length (critical_turns (track_of line_tel))
   \<and> apex_distance (critical_turns (track_of line_tel) ! 0)
        < apex_distance (critical_turns (track_of line_tel) ! Suc 0)"
proof -
  have "length (map apex_distance (critical_turns (track_of line_tel))) = 2"
    by (simp only: line_turns) simp
  then have l: "Suc 0 < length (critical_turns (track_of line_tel))" by simp
  from turns_strictly_ordered[OF line_init line_sorted l] line_init line_sorted l
  show ?thesis by simp
qed


text \<open>
  Claim C8 as stated fails on \<open>flat_raw\<close>, a reference lap whose distances are computed
  by \<open>__init__\<close> and in which consecutive samples coincide: the entries 20 and 21 are
  both apexes at distance \<open>1\<close>, and both become turns.
\<close>

theorem turns_not_strictly_ordered:
  "init_track flat_raw = Inr (track_of flat_tel)
   \<and> Suc 0 < length (critical_turns (track_of flat_tel))
   \<and> \<not> apex_distance (critical_turns (track_of flat_tel) ! 0)
        < apex_distance (critical_turns (track_of flat_tel) ! Suc 0)"
proof -
  have "length (map apex_distance (critical_turns (track_of flat_tel))) = 2"
    by (simp only: flat_turns) simp
  then have l: "length (critical_turns (track_of flat_tel)) = 2" by simp
  have "map apex_distance (critical_turns (track_of flat_tel)) ! 0 = 1"
       "map apex_distance (critical_turns (track_of flat_tel)) ! Suc 0 = 1"
    by (simp_all only: flat_turns) simp_all
  with l have "apex_distance (critical_turns (track_of flat_tel) ! 0) = 1"
    "apex_distance (critical_turns (track_of flat_tel) ! Suc 0) = 1"
    by simp_all
  with l flat_init show ?thesis by simp
qed


section \<open>The window of the apex search\<close>

text \<open>
  Claim C9 at \<open>dip_tel\<close>: the entry at index 20 is returned as the only apex, with
  speed 100, although the entry 20 places after it, at index 40, has speed 50.  The window
  \<open>range(i - window, i + window)\<close> ends one entry before index \<open>i + window\<close>.
\<close>

theorem apex_window_misses_last_entry:
  "find_apex_points dip_tel = [apex_of (dip_tel ! 20)]
   \<and> ap_speed (apex_of (dip_tel ! 20)) = 100
   \<and> t_speed (dip_tel ! (20 + window)) = 50
   \<and> 20 + window < length dip_tel"
  by code_simp


section \<open>Speed is never negative\<close>

lemma speed_gearbox_stage [simp]: "speed (gearbox_stage sim s) = speed s"
  by (simp add: gearbox_stage_def Let_def)

lemma speed_move_stage [simp]: "speed (move_stage sim s) = speed s"
  by (simp add: move_stage_def Let_def)

lemma speed_turn_stage [simp]: "speed (turn_stage sim s) = speed s"
  by (simp add: turn_stage_def Let_def)

lemma update_car_state_speed:
  assumes "update_car_state sim s thr brk steer = Inr s'"
  shows "0 \<le> speed s'"
  using assms
  by (auto simp: update_car_state_def Let_def split: sum.splits prod.splits if_splits)

lemma engine_stage_total:
  "power_curve_peak (physics sim) \<noteq> 0 \<Longrightarrow> \<exists>f s'. engine_stage sim s nf = Inr (f, s')"
  by (simp add: engine_stage_def calculate_engine_power_def Let_def)

lemma update_car_state_total:
  assumes "mass (physics sim) \<noteq> 0" and "power_curve_peak (physics sim) \<noteq> 0"
  shows "\<exists>s'. update_car_state sim s thr brk steer = Inr s'"
proof -
  obtain drag downforce where
    a: "calculate_aerodynamic_forces sim (speed s) = (drag, downforce)"
    by (cases "calculate_aerodynamic_forces sim (speed s)")
  from engine_stage_total[OF assms(2)] obtain f s1 where
    "engine_stage sim (s\<lparr>throttle := clip thr 0 100, brake := clip brk 0 100,
                  steering := clip steer (- 1) 1\<rparr>)
       (mass (physics sim) * gravity sim + downforce) = Inr (f, s1)"
    by blast
  with a assms(1) show ?thesis
    by (simp add: update_car_state_def Let_def)
qed

text \<open>
  Claim C5.  Whatever the input state and the throttle, brake and steering values, a
  state returned by \<open>update_car_state\<close> has a speed of at least \<open>0\<close>; and the function
  does return a state whenever the mass and the peak engine speed of the parameter set
  are not zero (the two divisors of the function).
\<close>

theorem speed_nonnegative:
  "(\<forall>s'. update_car_state sim s thr brk steer = Inr s' \<longrightarrow> 0 \<le> speed s')
   \<and> (mass (physics sim) \<noteq> 0 \<and> power_curve_peak (physics sim) \<noteq> 0 \<longrightarrow>
        (\<exists>s'. update_car_state sim s thr brk steer = Inr s'))"
  using update_car_state_speed update_car_state_total by blast

theorem speed_nonnegative_witness:
  "mass (physics (new_simulator CarPhysics_default)) \<noteq> 0
   \<and> power_curve_peak (physics (new_simulator CarPhysics_default)) \<noteq> 0
   \<and> (\<exists>s'. update_car_state (new_simulator CarPhysics_default) CarState_default 100 0 0 = Inr s'
             \<and> 0 \<le> speed s')"
  using speed_nonnegative[of "new_simulator CarPhysics_default" CarState_default 100 0 0]
  by (auto simp: new_simulator_def CarPhysics_default_def)

section \<open>Steps of the environment\<close>

lemma bookkeeping_fields:
  "track (bookkeeping env s1 n) = track env"
  "config (bookkeeping env s1 n) = config env"
  "boundaries (bookkeeping env s1 n) = boundaries env"
  "simulator (bookkeeping env s1 n) = simulator env"
  "lap_start_time (bookkeeping env s1 n) = lap_start_time env"
  "car_x (state (bookkeeping env s1 n)) = car_x s1"
  "car_y (state (bookkeeping env s1 n)) = car_y s1"
  "speed (state (bookkeeping env s1 n)) = speed s1"
  "lap_time (state (bookkeeping env s1 n)) = lap_time s1"
  "distance (state (bookkeeping env s1 n)) = rl_distance n"
  "last_x (bookkeeping env s1 n) = car_x s1"
  "last_y (bookkeeping env s1 n) = car_y s1"
  "steps (bookkeeping env s1 n) = steps env + 1"
  by (simp_all add: bookkeeping_def Let_def)

lemma step_parts:
  assumes "step env action now = Inr (env', obs, reward, fin, info0)"
  shows "\<exists>s1 n sd pr.
           update_car_state (simulator env) (state env)
             (clip ((fst action + 1) * 50) 0 100) (clip ((fst (snd action) + 1) * 50) 0 100)
             (clip (snd (snd action)) (- 1) 1) = Inr s1
           \<and> get_nearest_line_point (racing_line (track env)) (car_x s1) (car_y s1) = Some n
           \<and> env' = bookkeeping env s1 n
           \<and> calculate_reward env' sd pr now = Inr (reward, fin, info0)"
  using assms
  by (auto simp: step_def Let_def split: sum.splits prod.splits option.splits)

lemma telemetry_index_scan_bound:
  "b < n \<Longrightarrow> i + length pts \<le> n \<Longrightarrow> telemetry_index_scan d m b i pts < n"
  by (induction pts arbitrary: m b i) (auto simp: Let_def)

lemma get_telemetry_index_bound:
  "telemetry tr \<noteq> [] \<Longrightarrow> get_telemetry_index tr d < length (telemetry tr)"
  unfolding get_telemetry_index_def
  by (rule telemetry_index_scan_bound) simp_all

lemma get_observation_total:
  assumes "get_nearest_line_point (racing_line (track env)) (car_x (state env))
             (car_y (state env)) = Some n"
    and "telemetry (track env) \<noteq> []" and "track_length (track env) \<noteq> 0"
  shows "\<exists>obs. get_observation env = Inr obs"
  using assms get_telemetry_index_bound[OF assms(2)]
  by (simp add: get_observation_def Let_def section_next_turn_def optimal_speed_def
      split: prod.splits option.splits)

lemma is_off_track_cong:
  assumes "track env' = track env" "boundaries env' = boundaries env"
    "car_x (state env') = car_x (state env)" "car_y (state env') = car_y (state env)"
  shows "is_off_track env' = is_off_track env"
  using assms by (auto simp: is_off_track_def Let_def split: option.splits)

lemma is_off_track_total:
  assumes "get_nearest_line_point (racing_line (track env)) (car_x (state env))
             (car_y (state env)) = Some n"
  shows "\<exists>off. is_off_track env = Inr off"
  using assms by (simp add: is_off_track_def Let_def split: option.splits prod.splits)

lemma calculate_reward_total:
  assumes n: "get_nearest_line_point (racing_line (track env)) (car_x (state env))
             (car_y (state env)) = Some n"
    and "track_length (track env) \<noteq> 0"
  shows "\<exists>reward fin info0. calculate_reward env sd pr now = Inr (reward, fin, info0)"
proof -
  from is_off_track_total[OF n] obtain off where "is_off_track env = Inr off" by blast
  with assms have "\<not> isl (calculate_reward env sd pr now)"
    by (simp add: calculate_reward_def Let_def)
  then show ?thesis
    by (cases "calculate_reward env sd pr now") auto
qed

text \<open>A car at rest stays at rest under the idle controls.\<close>

lemma update_parked:
  assumes "speed s = 0"
  shows "\<exists>s'. update_car_state (new_simulator CarPhysics_default) s 0 0 0 = Inr s'
           \<and> speed s' = 0 \<and> car_x s' = car_x s \<and> car_y s' = car_y s"
  using assms
  by (simp add: update_car_state_def Let_def new_simulator_def CarPhysics_default_def
      calculate_aerodynamic_forces_def engine_stage_def calculate_engine_power_def
      traction_limited_def calculate_braking_force_def clip_def
      turn_stage_def move_stage_def gearbox_stage_def)

lemma parked_step_exists:
  assumes p: "parked env"
    and n: "get_nearest_line_point (racing_line (track env)) (car_x (state env))
              (car_y (state env)) = Some n"
    and tel: "telemetry (track env) \<noteq> []"
    and nz: "track_length (track env) \<noteq> 0"
  shows "\<exists>s1 obs reward fin info0.
           step env idle_action now = Inr (bookkeeping env s1 n, obs, reward, fin, info0)
           \<and> speed s1 = 0 \<and> car_x s1 = car_x (state env) \<and> car_y s1 = car_y (state env)
           \<and> consecutive_no_progress (bookkeeping env s1 n) = consecutive_no_progress env + 1
           \<and> calculate_reward (bookkeeping env s1 n) 0 (rl_distance n - last_distance env) now
               = Inr (reward, fin, info0)"
proof -
  from p have sim: "simulator env = new_simulator CarPhysics_default"
    and sp: "speed (state env) = 0"
    and lx: "last_x env = car_x (state env)" and ly: "last_y env = car_y (state env)"
    by (simp_all add: parked_def)
  from update_parked[OF sp] obtain s1 where
    u: "update_car_state (new_simulator CarPhysics_default) (state env) 0 0 0 = Inr s1"
    and s1: "speed s1 = 0" "car_x s1 = car_x (state env)" "car_y s1 = car_y (state env)"
    by blast
  define env' where "env' = bookkeeping env s1 n"
  have f: "track env' = track env" "car_x (state env') = car_x (state env)"
    "car_y (state env') = car_y (state env)"
    by (simp_all add: env'_def bookkeeping_fields s1)
  have c: "consecutive_no_progress env' = consecutive_no_progress env + 1"
    by (simp add: env'_def bookkeeping_def Let_def s1 lx ly)
  have n': "get_nearest_line_point (racing_line (track env')) (car_x (state env'))
              (car_y (state env')) = Some n"
    using n by (simp add: f)
  have tel': "telemetry (track env') \<noteq> []" and nz': "track_length (track env') \<noteq> 0"
    using tel nz by (simp_all add: f)
  from get_observation_total[OF n' tel' nz'] obtain obs where
    obs: "get_observation env' = Inr obs"
    by blast
  from calculate_reward_total[OF n' nz'] obtain reward fin info0 where
    cr: "calculate_reward env' 0 (rl_distance n - last_distance env) now
           = Inr (reward, fin, info0)"
    by blast
  have "step env idle_action now = Inr (env', obs, reward, fin, info0)"
    using n cr obs
    by (simp add: step_def idle_action_def clip_def sim u s1 Let_def env'_def[symmetric])
  with s1 c cr show ?thesis unfolding env'_def by blast
qed

section \<open>The backwards branch\<close>

lemma calculate_reward_backwards:
  "calculate_reward env sd pr now = Inr (reward, fin, Crash backwards) \<Longrightarrow>
   speed (state env) < 0"
  by (auto simp: calculate_reward_def Let_def split: sum.splits option.splits if_splits)

text \<open>
  Claim C6.  No step produces the outcome \<open>Crash backwards\<close>: the state that \<open>step\<close>
  hands to the termination checks is the one \<open>update_car_state\<close> returned, with only
  its distance re-anchored, so its speed is at least \<open>0\<close> and the test \<open>speed < 0\<close>
  fails.
\<close>

theorem backwards_unreachable:
  assumes "step env action now = Inr (env', obs, reward, done, info0)"
  shows "info0 \<noteq> Crash backwards \<and> 0 \<le> speed (state env')"
proof -
  from step_parts[OF assms] obtain s1 n sd pr where
    u: "update_car_state (simulator env) (state env)
             (clip ((fst action + 1) * 50) 0 100) (clip ((fst (snd action) + 1) * 50) 0 100)
             (clip (snd (snd action)) (- 1) 1) = Inr s1"
    and e: "env' = bookkeeping env s1 n"
    and c: "calculate_reward env' sd pr now = Inr (reward, done, info0)"
    by blast
  from update_car_state_speed[OF u] have sp: "0 \<le> speed (state env')"
    by (simp add: e bookkeeping_fields)
  have "info0 \<noteq> Crash backwards"
  proof
    assume "info0 = Crash backwards"
    with c have "speed (state env') < 0" by (auto dest: calculate_reward_backwards)
    with sp show False by simp
  qed
  with sp show ?thesis by simp
qed

section \<open>The short track\<close>

lemma short_track_fields:
  "telemetry (track_of short_tel) = short_tel"
  "track_length (track_of short_tel) = 1 / 20"
  "racing_line (track_of short_tel) =
     [\<lparr>rl_distance = 0, rl_x = 0, rl_y = 0, rl_speed = 100, rl_throttle = 100,
       rl_brake = False\<rparr>,
      \<lparr>rl_distance = 1 / 20, rl_x = 1 / 20, rl_y = 0, rl_speed = 100, rl_throttle = 100,
       rl_brake = False\<rparr>]"
  "critical_turns (track_of short_tel) = []"
  by code_simp+

lemma sqrt_gt_iff: "0 \<le> b \<Longrightarrow> sqrt a > b \<longleftrightarrow> a > b\<^sup>2"
  by (metis real_sqrt_less_iff real_sqrt_abs abs_of_nonneg)

lemma placed_nearest:
  "get_nearest_line_point (racing_line (track_of short_tel)) 0 y =
     Some \<lparr>rl_distance = 0, rl_x = 0, rl_y = 0, rl_speed = 100, rl_throttle = 100,
           rl_brake = False\<rparr>"
proof -
  have "sqrt (y * y) \<le> sqrt (1 / 400 + y * y)"
    by (rule real_sqrt_le_mono) simp
  then have "\<not> sqrt (1 / 400 + y * y) < \<bar>y\<bar>" by simp
  then show ?thesis
    by (simp add: short_track_fields get_nearest_line_point_def Let_def power2_eq_square)
qed

lemma short_env_fields:
  "track (placed_at short_env y) = track_of short_tel"
  "boundaries (placed_at short_env y) = None"
  "config (placed_at short_env y) = TrainingConfig_default"
  "car_x (state (placed_at short_env y)) = 0"
  "car_y (state (placed_at short_env y)) = y"
  "steps (placed_at short_env y) = 0"
  "consecutive_no_progress (placed_at short_env y) = 0"
  "parked (placed_at short_env y)"
  by (simp_all add: placed_at_def short_env_def new_env_def parked_def)


lemma short_off_track: "is_off_track (placed_at short_env y) = Inr (\<bar>y\<bar> > 25)"
  by (simp add: is_off_track_def short_env_fields placed_nearest Let_def)

text \<open>The idle step of a car placed at \<open>(0, y)\<close> on the short track.\<close>

lemma placed_step:
  assumes "track env = track_of short_tel" "parked env" "car_x (state env) = 0"
  shows "\<exists>env' obs reward fin info0.
           step env idle_action now = Inr (env', obs, reward, fin, info0)
           \<and> car_x (state env') = 0 \<and> car_y (state env') = car_y (state env)"
proof -
  have n: "get_nearest_line_point (racing_line (track env)) (car_x (state env))
              (car_y (state env)) =
             Some \<lparr>rl_distance = 0, rl_x = 0, rl_y = 0, rl_speed = 100, rl_throttle = 100,
                   rl_brake = False\<rparr>"
    by (simp add: assms placed_nearest)
  have tel: "telemetry (track env) \<noteq> []"
    unfolding assms short_track_fields by (simp add: short_tel_def)
  have nz: "track_length (track env) \<noteq> 0"
    by (simp add: assms short_track_fields)
  from parked_step_exists[OF assms(2) n tel nz, of now] show ?thesis
    by (auto simp: bookkeeping_fields assms)
qed

theorem backwards_unreachable_witness:
  "\<exists>env' obs reward done info0.
     step (placed_at short_env 0) idle_action 0 = Inr (env', obs, reward, done, info0)
     \<and> info0 \<noteq> Crash backwards \<and> 0 \<le> speed (state env')"
proof -
  from placed_step[of "placed_at short_env 0" 0]
  obtain env' obs reward fin info0 where
    s: "step (placed_at short_env 0) idle_action 0 = Inr (env', obs, reward, fin, info0)"
    by (auto simp: short_env_fields)
  from backwards_unreachable[OF s] s show ?thesis by blast
qed


section \<open>The off-track rule\<close>













section \<open>Stuck detection\<close>

lemma parked_step:
  assumes p: "parked_like env0 env"
    and n: "get_nearest_line_point (racing_line (track env0)) (car_x (state env0))
              (car_y (state env0)) = Some n"
    and tel: "telemetry (track env0) \<noteq> []"
    and nz: "track_length (track env0) \<noteq> 0"
    and len: "rl_distance n < track_length (track env0)"
    and off: "is_off_track env0 = Inr False"
  shows "\<exists>env' obs reward fin info0.
           step env idle_action now = Inr (env', obs, reward, fin, info0)
           \<and> parked_like env0 env'
           \<and> consecutive_no_progress env' = consecutive_no_progress env + 1
           \<and> steps env' = steps env + 1
           \<and> (if consecutive_no_progress env + 1 > 500
               then reward = crash_penalty (config env0) \<and> fin \<and> info0 = Crash stuck
               else steps env + 1 < max_steps_per_episode (config env0) \<longrightarrow> \<not> fin)"
proof -
  from p have pk: "parked env" and eqs: "track env = track env0" "config env = config env0"
    "boundaries env = boundaries env0" "lap_start_time env = lap_start_time env0"
    "car_x (state env) = car_x (state env0)" "car_y (state env) = car_y (state env0)"
    by (simp_all add: parked_like_def)
  have n1: "get_nearest_line_point (racing_line (track env)) (car_x (state env))
              (car_y (state env)) = Some n"
    using n by (simp add: eqs)
  have tel1: "telemetry (track env) \<noteq> []" and nz1: "track_length (track env) \<noteq> 0"
    using tel nz by (simp_all add: eqs)
  from parked_step_exists[OF pk n1 tel1 nz1, of now]
  obtain s1 obs reward fin info0 where
    st: "step env idle_action now = Inr (bookkeeping env s1 n, obs, reward, fin, info0)"
    and s1: "speed s1 = 0" "car_x s1 = car_x (state env)" "car_y s1 = car_y (state env)"
    and c: "consecutive_no_progress (bookkeeping env s1 n) = consecutive_no_progress env + 1"
    and cr: "calculate_reward (bookkeeping env s1 n) 0 (rl_distance n - last_distance env) now
               = Inr (reward, fin, info0)"
    by blast
  let ?e = "bookkeeping env s1 n"
  from pk have sim: "simulator env = new_simulator CarPhysics_default"
    by (simp add: parked_def)
  have pl: "parked_like env0 ?e"
    by (simp add: parked_like_def parked_def bookkeeping_fields s1 eqs sim)
  have off1: "is_off_track ?e = Inr False"
    using is_off_track_cong[of ?e env0] off by (simp add: bookkeeping_fields s1 eqs)
  have n2: "get_nearest_line_point (racing_line (track ?e)) (car_x (state ?e))
              (car_y (state ?e)) = Some n"
    using n1 by (simp add: bookkeeping_fields s1)
  have "\<exists>r f i. calculate_reward ?e 0 (rl_distance n - last_distance env) now = Inr (r, f, i)
      \<and> (if consecutive_no_progress env + 1 > 500
          then r = crash_penalty (config env0) \<and> f \<and> i = Crash stuck
          else steps env + 1 < max_steps_per_episode (config env0) \<longrightarrow> \<not> f)"
    using len nz
    by (auto simp: calculate_reward_def Let_def n off1 c bookkeeping_fields s1 eqs)
  with cr have res: "if consecutive_no_progress env + 1 > 500
               then reward = crash_penalty (config env0) \<and> fin \<and> info0 = Crash stuck
               else steps env + 1 < max_steps_per_episode (config env0) \<longrightarrow> \<not> fin"
    by auto
  from st pl c res show ?thesis
    by (intro exI[of _ ?e] exI[of _ obs] exI[of _ reward] exI[of _ fin] exI[of _ info0])
       (simp add: bookkeeping_fields)
qed

lemma parked_like_refl: "parked env \<Longrightarrow> parked_like env env"
  by (simp add: parked_like_def)

text \<open>While the counter stays at or below 500 the parked car keeps running.\<close>

lemma parked_rollout:
  assumes n: "get_nearest_line_point (racing_line (track env0)) (car_x (state env0))
              (car_y (state env0)) = Some n"
    and tel: "telemetry (track env0) \<noteq> []"
    and nz: "track_length (track env0) \<noteq> 0"
    and len: "rl_distance n < track_length (track env0)"
    and off: "is_off_track env0 = Inr False"
  shows "parked_like env0 env \<Longrightarrow>
         consecutive_no_progress env + length ts \<le> 500 \<Longrightarrow>
         steps env + length ts < max_steps_per_episode (config env0) \<Longrightarrow>
         \<exists>e rs. rollout env (map (Pair idle_action) ts) = Inr (e, rs)
           \<and> parked_like env0 e
           \<and> consecutive_no_progress e = consecutive_no_progress env + length ts
           \<and> steps e = steps env + length ts
           \<and> map (\<lambda>r. fst (snd r)) rs = replicate (length ts) False"
proof (induction ts arbitrary: env)
  case Nil
  then show ?case by simp
next
  case (Cons t ts)
  from parked_step[OF Cons.prems(1) n tel nz len off, of t]
  obtain env' obs reward fin info0 where
    st: "step env idle_action t = Inr (env', obs, reward, fin, info0)"
    and pl: "parked_like env0 env'"
    and c: "consecutive_no_progress env' = consecutive_no_progress env + 1"
    and k: "steps env' = steps env + 1"
    and res: "if consecutive_no_progress env + 1 > 500
               then reward = crash_penalty (config env0) \<and> fin \<and> info0 = Crash stuck
               else steps env + 1 < max_steps_per_episode (config env0) \<longrightarrow> \<not> fin"
    by blast
  from res Cons.prems(2,3) have nf: "\<not> fin" by (simp split: if_splits)
  from Cons.prems(2,3) c k
  have "consecutive_no_progress env' + length ts \<le> 500"
    "steps env' + length ts < max_steps_per_episode (config env0)"
    by simp_all
  from Cons.IH[OF pl this] obtain e rs where
    r: "rollout env' (map (Pair idle_action) ts) = Inr (e, rs)"
    and pe: "parked_like env0 e"
    and ce: "consecutive_no_progress e = consecutive_no_progress env' + length ts"
    and ke: "steps e = steps env' + length ts"
    and rs: "map (\<lambda>r. fst (snd r)) rs = replicate (length ts) False"
    by blast
  have "rollout env (map (Pair idle_action) (t # ts)) = Inr (e, (reward, fin, info0) # rs)"
    by (simp add: st nf r)
  with pe ce ke rs c k nf show ?case by simp
qed

lemma rollout_append:
  "rollout env xs = Inr (e, rs) \<Longrightarrow> map (\<lambda>r. fst (snd r)) rs = replicate (length xs) False \<Longrightarrow>
   rollout env (xs @ ys) =
     (case rollout e ys of Inl er \<Rightarrow> Inl er | Inr (e', rs') \<Rightarrow> Inr (e', rs @ rs'))"
proof (induction xs arbitrary: env rs)
  case Nil
  then show ?case by (auto split: sum.splits)
next
  case (Cons x xs)
  obtain a t where x: "x = (a, t)" by (cases x)
  from Cons.prems show ?case
    by (auto simp: x Cons.IH split: sum.splits prod.splits if_splits)
qed

text \<open>
  Claim C1 on the code.  A car is parked on the track (not off track, short of the
  finish, stuck counter at 0) and the policy leaves the controls idle, so that every
  tick has a physical displacement of 0.  Then the first 500 steps all return
  \<open>done = False\<close>; the episode ends as \<open>Crash stuck\<close> with the reward \<open>crash_penalty\<close>
  on step 501.  \<open>ts\<close> are the clock readings of the first 500 steps, \<open>t\<close> that of
  step 501.
\<close>

theorem stuck_declared_on_tick_501:
  assumes "parked env"
    and "get_nearest_line_point (racing_line (track env)) (car_x (state env))
              (car_y (state env)) = Some n"
    and "telemetry (track env) \<noteq> []"
    and "track_length (track env) \<noteq> 0"
    and "rl_distance n < track_length (track env)"
    and "is_off_track env = Inr False"
    and "consecutive_no_progress env = 0"
    and "steps env + 501 < max_steps_per_episode (config env)"
    and "length ts = 500"
  shows "(\<exists>e rs. rollout env (map (Pair idle_action) ts) = Inr (e, rs)
            \<and> map (\<lambda>r. fst (snd r)) rs = replicate 500 False)
       \<and> (\<exists>e rs. rollout env (map (Pair idle_action) (ts @ [t])) = Inr (e, rs)
            \<and> length rs = 501
            \<and> last rs = (crash_penalty (config env), True, Crash stuck))"
proof -
  from parked_rollout[OF assms(2-6) parked_like_refl[OF assms(1)], of ts] assms(7-9)
  obtain e rs where
    r: "rollout env (map (Pair idle_action) ts) = Inr (e, rs)"
    and pe: "parked_like env e"
    and ce: "consecutive_no_progress e = 500"
    and rs: "map (\<lambda>r. fst (snd r)) rs = replicate 500 False"
    by auto
  from parked_step[OF pe assms(2-6), of t] ce
  obtain env' obs reward fin info0 where
    st: "step e idle_action t = Inr (env', obs, reward, fin, info0)"
    and res: "reward = crash_penalty (config env) \<and> fin \<and> info0 = Crash stuck"
    by auto
  from rs have lrs: "length rs = 500"
    by (metis length_map length_replicate)
  have "rollout env (map (Pair idle_action) ts @ [(idle_action, t)]) =
          (case rollout e [(idle_action, t)] of
             Inl er \<Rightarrow> Inl er | Inr (e', rs') \<Rightarrow> Inr (e', rs @ rs'))"
    by (rule rollout_append[OF r]) (simp add: rs assms(9))
  also have "\<dots> = Inr (env', rs @ [(crash_penalty (config env), True, Crash stuck)])"
    using st res by simp
  finally have
    "rollout env (map (Pair idle_action) (ts @ [t])) =
       Inr (env', rs @ [(crash_penalty (config env), True, Crash stuck)])"
    by simp
  with r rs lrs show ?thesis by simp
qed

theorem stuck_declared_on_tick_501_witness:
  "parked (placed_at short_env 0)
   \<and> consecutive_no_progress (placed_at short_env 0) = 0
   \<and> (\<exists>e rs. rollout (placed_at short_env 0) (map (Pair idle_action) (replicate 500 0))
                = Inr (e, rs)
            \<and> map (\<lambda>r. fst (snd r)) rs = replicate 500 False)
   \<and> (\<exists>e rs. rollout (placed_at short_env 0)
                  (map (Pair idle_action) (replicate 500 0 @ [0])) = Inr (e, rs)
            \<and> length rs = 501 \<and> last rs = (- 50, True, Crash stuck))"
proof -
  have tel: "telemetry (track (placed_at short_env 0)) \<noteq> []"
    unfolding short_env_fields short_track_fields by (simp add: short_tel_def)
  have n: "get_nearest_line_point (racing_line (track (placed_at short_env 0)))
             (car_x (state (placed_at short_env 0))) (car_y (state (placed_at short_env 0))) =
           Some \<lparr>rl_distance = 0, rl_x = 0, rl_y = 0, rl_speed = 100, rl_throttle = 100,
                 rl_brake = False\<rparr>"
    by (simp add: short_env_fields placed_nearest)
  have "(\<exists>e rs. rollout (placed_at short_env 0) (map (Pair idle_action) (replicate 500 0))
                = Inr (e, rs)
            \<and> map (\<lambda>r. fst (snd r)) rs = replicate 500 False)
       \<and> (\<exists>e rs. rollout (placed_at short_env 0)
                  (map (Pair idle_action) (replicate 500 0 @ [0])) = Inr (e, rs)
            \<and> length rs = 501
            \<and> last rs = (crash_penalty (config (placed_at short_env 0)), True, Crash stuck))"
    by (rule stuck_declared_on_tick_501[OF _ n tel])
       (simp_all add: short_env_fields short_track_fields short_off_track
          TrainingConfig_default_def)
  then show ?thesis
    by (simp add: short_env_fields TrainingConfig_default_def)
qed


section \<open>Completion and the lap time\<close>

lemma calculate_reward_completed:
  assumes "calculate_reward env sd pr now = Inr (reward, fin, Completed lap)"
  shows "lap = now - lap_start_time env
         \<and> reward = completion_reward (config env) + (if lap < 100 then (100 - lap) * 2 else 0)
         \<and> fin \<and> track_length (track env) \<le> distance (state env)"
  using assms
  by (auto simp: calculate_reward_def Let_def split: option.splits sum.splits if_splits)

text \<open>
  Claim C2 on the code.  When a step ends the episode as \<open>Completed lap\<close>, the
  re-anchored distance has reached the track length and the reward is
  \<open>completion_reward\<close> plus \<open>2 * (100 - lap)\<close> when \<open>lap < 100\<close>; but \<open>lap\<close> is the
  wall-clock reading \<open>now\<close> of this step minus the reading taken by \<open>reset\<close>, whatever
  the simulated time \<open>lap_time\<close> of the car is.
\<close>

theorem completion_lap_time_is_wall_clock:
  assumes "step env action now = Inr (env', obs, reward, done, Completed lap)"
  shows "lap = now - lap_start_time env
         \<and> reward = completion_reward (config env) + (if lap < 100 then (100 - lap) * 2 else 0)
         \<and> done \<and> track_length (track env) \<le> distance (state env')"
proof -
  from step_parts[OF assms] obtain s1 n sd pr where
    e: "env' = bookkeeping env s1 n"
    and c: "calculate_reward env' sd pr now = Inr (reward, done, Completed lap)"
    by blast
  from calculate_reward_completed[OF c] show ?thesis
    by (simp add: e bookkeeping_fields)
qed

lemma reset_short: "\<exists>obs. reset short_env 0 = Inr (started, obs)"
proof -
  have n: "get_nearest_line_point (racing_line (track started)) (car_x (state started))
             (car_y (state started)) =
           Some \<lparr>rl_distance = 0, rl_x = 0, rl_y = 0, rl_speed = 100, rl_throttle = 100,
                 rl_brake = False\<rparr>"
    by (simp add: started_def short_env_def new_env_def CarState_default_def placed_nearest)
  have t: "track started = track_of short_tel"
    by (simp add: started_def short_env_def new_env_def)
  have tel: "telemetry (track started) \<noteq> []"
    unfolding t short_track_fields by (simp add: short_tel_def)
  have nz: "track_length (track started) \<noteq> 0"
    by (simp add: t short_track_fields)
  from get_observation_total[OF n tel nz] obtain obs where
    o: "get_observation started = Inr obs" by blast
  have r: "racing_line (track short_env) =
     [\<lparr>rl_distance = 0, rl_x = 0, rl_y = 0, rl_speed = 100, rl_throttle = 100,
       rl_brake = False\<rparr>,
      \<lparr>rl_distance = 1 / 20, rl_x = 1 / 20, rl_y = 0, rl_speed = 100, rl_throttle = 100,
       rl_brake = False\<rparr>]"
    by (simp add: short_env_def new_env_def short_track_fields)
  have "short_env\<lparr>state := (state short_env)\<lparr>car_x := 0, car_y := 0,
                    heading := arctan2 0 (1 / 20), speed := 8.3, gear := 2, rpm := 6000,
                    throttle := 0, brake := 0, steering := 0, distance := 0, lap_time := 0\<rparr>,
             steps := 0, last_distance := 0, best_distance := 0,
             lap_start_time := 0, consecutive_no_progress := 0,
             position_history := [], last_x := 0, last_y := 0,
             total_physical_distance := 0\<rparr> = started"
    by (simp add: started_def short_env_def new_env_def CarState_default_def arctan2_def)
  then have "reset short_env 0 = Inr (started, obs)"
    by (simp add: reset_def Let_def r o)
  then show ?thesis by blast
qed

text \<open>One tick of coasting straight ahead from the rolling start.\<close>

lemma update_started:
  "\<exists>s1. update_car_state (new_simulator CarPhysics_default) (state started) 0 0 0 = Inr s1
        \<and> car_x s1 = 2207613997 / 26600000000 \<and> car_y s1 = 0 \<and> lap_time s1 = 1 / 100"
  by (auto simp: started_def short_env_def new_env_def CarState_default_def
      update_car_state_def Let_def new_simulator_def CarPhysics_default_def
      calculate_aerodynamic_forces_def engine_stage_def calculate_engine_power_def
      traction_limited_def calculate_braking_force_def clip_def
      turn_stage_def move_stage_def gearbox_stage_def power2_eq_square)

text \<open>After \<open>reset\<close> at clock reading 0, the first step, taken at clock reading 5,
  completes the short track: the lap time reported is 5 and the reward 390, while the
  simulated lap time of the car is 0.01.\<close>

theorem completion_lap_time_is_wall_clock_witness:
  "\<exists>obs0 env' obs.
     reset short_env 0 = Inr (started, obs0)
     \<and> step started idle_action 5 = Inr (env', obs, 390, True, Completed 5)
     \<and> lap_time (state env') = 1 / 100"
proof -
  from reset_short obtain obs0 where r: "reset short_env 0 = Inr (started, obs0)" by blast
  from update_started obtain s1 where
    u: "update_car_state (new_simulator CarPhysics_default) (state started) 0 0 0 = Inr s1"
    and s1: "car_x s1 = 2207613997 / 26600000000" "car_y s1 = 0" "lap_time s1 = 1 / 100"
    by blast
  let ?n = "\<lparr>rl_distance = 1 / 20, rl_x = 1 / 20, rl_y = 0, rl_speed = 100, rl_throttle = 100,
       rl_brake = False\<rparr>"
  have f: "track started = track_of short_tel" "boundaries started = None"
    "config started = TrainingConfig_default" "lap_start_time started = 0"
    "simulator started = new_simulator CarPhysics_default"
    by (simp_all add: started_def short_env_def new_env_def)
  have nn: "get_nearest_line_point
              [\<lparr>rl_distance = 0, rl_x = 0, rl_y = 0, rl_speed = 100, rl_throttle = 100,
                rl_brake = False\<rparr>, ?n]
              (2207613997 / 26600000000) 0 = Some ?n"
    by (simp add: get_nearest_line_point_def Let_def power2_eq_square)
  then have n: "get_nearest_line_point (racing_line (track started)) (car_x s1) (car_y s1)
                  = Some ?n"
    by (simp add: f s1 short_track_fields)
  let ?e = "bookkeeping started s1 ?n"
  have n': "get_nearest_line_point (racing_line (track ?e)) (car_x (state ?e))
              (car_y (state ?e)) = Some ?n"
    using n by (simp add: bookkeeping_fields)
  have tel: "telemetry (track ?e) \<noteq> []"
    unfolding bookkeeping_fields f short_track_fields by (simp add: short_tel_def)
  have nz: "track_length (track ?e) \<noteq> 0"
    by (simp add: bookkeeping_fields f short_track_fields)
  from get_observation_total[OF n' tel nz] obtain obs where
    o: "get_observation ?e = Inr obs" by blast
  have sp: "\<not> speed s1 < 0"
    using update_car_state_speed[OF u] by simp
  have cnt: "\<not> 500 < consecutive_no_progress ?e"
    by (simp add: bookkeeping_def Let_def started_def short_env_def new_env_def)
  have off: "is_off_track ?e = Inr False"
    by (simp add: is_off_track_def Let_def bookkeeping_fields f s1 nn sqrt_gt_iff
        power2_eq_square short_track_fields)
  have c: "calculate_reward ?e sd pr 5 = Inr (390, True, Completed 5)" for sd pr
    using cnt sp
    by (simp add: calculate_reward_def Let_def bookkeeping_fields f s1 nn off
        short_track_fields TrainingConfig_default_def)
  have st: "step started idle_action 5 = Inr (?e, obs, 390, True, Completed 5)"
    using n c o by (simp add: step_def idle_action_def clip_def f u Let_def)
  from completion_lap_time_is_wall_clock[OF st]
  have "lap_start_time started = 0" by simp
  with r st s1 show ?thesis
    by (intro exI[of _ obs0] exI[of _ ?e] exI[of _ obs]) (simp add: bookkeeping_fields)
qed


section \<open>Acceleration under full throttle\<close>


lemma power_factor_lower:
  fixes r2 :: int
  assumes "5000 \<le> r2" "r2 \<le> 15000"
  shows "(357000::real) \<le> 710000 * exp (- 0.5 * ((of_int r2 / 11000 - 1)\<^sup>2) / 0.3)"
proof -
  define q :: real where "q = of_int r2 / 11000"
  from assms have "5000 \<le> (of_int r2 :: real)" "(of_int r2 :: real) \<le> 15000" by linarith+
  then have qb: "5 / 11 \<le> q" "q \<le> 15 / 11" by (simp_all add: q_def)
  then have "\<bar>q - 1\<bar> \<le> 6 / 11" by linarith
  then have "(q - 1)\<^sup>2 \<le> (6 / 11)\<^sup>2"
    by (metis abs_le_square_iff abs_of_nonneg divide_nonneg_nonneg zero_le_numeral)
  then have e: "- (60 / 121) \<le> - 0.5 * ((q - 1)\<^sup>2) / 0.3"
    by (simp add: power2_eq_square)
  have "1 + (- 0.5 * ((q - 1)\<^sup>2) / 0.3) \<le> exp (- 0.5 * ((q - 1)\<^sup>2) / 0.3)"
    by (rule exp_ge_add_one_self)
  with e have "61 / 121 \<le> exp (- 0.5 * ((q - 1)\<^sup>2) / 0.3)" by linarith
  then show ?thesis unfolding q_def by linarith
qed

lemma engine_power_lower:
  "\<exists>pw. calculate_engine_power (new_simulator CarPhysics_default) r 100 = Inr pw \<and> 357000 \<le> pw"
proof -
  consider "r < 5000" | "5000 \<le> r" "r \<le> 15000" | "15000 < r" by linarith
  then show ?thesis
  proof cases
    case 1
    with power_factor_lower[of 5000] show ?thesis
      by (simp add: calculate_engine_power_def Let_def new_simulator_def CarPhysics_default_def)
  next
    case 2
    with power_factor_lower[of r] show ?thesis
      by (simp add: calculate_engine_power_def Let_def new_simulator_def CarPhysics_default_def)
  next
    case 3
    with power_factor_lower[of 15000] show ?thesis
      by (simp add: calculate_engine_power_def Let_def new_simulator_def CarPhysics_default_def)
  qed
qed


lemma traction_default:
  "traction_limited (new_simulator CarPhysics_default) s pw nf =
     (if speed s * (18 / 5) < 100
      then min (if speed s > 1 / 2 then pw / speed s else 10000 * (throttle s / 100))
               (nf * (17 / 20 + (7 / 5 - 17 / 20) * (speed s * (18 / 5) / 100)))
      else min (pw / speed s) (nf * (7 / 5)))"
  by (simp add: traction_limited_def Let_def new_simulator_def CarPhysics_default_def)

lemma traction_lower:
  assumes v: "0 \<le> speed s" "speed s \<le> 76" and t: "throttle s = 100" and pw: "357000 \<le> pw"
  shows "(81 / 100) * (speed s)\<^sup>2
         \<le> traction_limited (new_simulator CarPhysics_default) s pw
              (798 * (981 / 100) + (27 / 10) * (speed s)\<^sup>2)"
proof -
  define v where "v = speed s"
  define nf where "nf = 798 * (981 / 100) + (27 / 10) * v\<^sup>2"
  have v0: "0 \<le> v" and v76: "v \<le> 76" using v by (simp_all add: v_def)
  have sq: "0 \<le> v\<^sup>2" by simp
  have nf0: "0 \<le> nf" using sq by (simp add: nf_def)
  have cube: "v\<^sup>2 * v \<le> 438976"
  proof -
    have "v ^ 3 \<le> 76 ^ 3" using v76 v0 by (rule power_mono)
    then show ?thesis by (simp add: power3_eq_cube power2_eq_square)
  qed
  have pwv: "(81 / 100) * v\<^sup>2 \<le> pw / v" if "0 < v"
  proof -
    have "(81 / 100) * (v\<^sup>2 * v) \<le> pw" using cube pw by linarith
    then have "(81 / 100) * v\<^sup>2 * v \<le> pw" by (simp only: mult.assoc)
    with that show ?thesis by (simp only: pos_le_divide_eq)
  qed
  have base: "(81 / 100) * v\<^sup>2 \<le> nf * (17 / 20)"
  proof -
    have "nf * (17 / 20) = 6654123 / 1000 + (459 / 200) * v\<^sup>2"
      by (simp add: nf_def algebra_simps)
    with sq show ?thesis by linarith
  qed
  have low: "(81 / 100) * v\<^sup>2 \<le> nf * g" if "17 / 20 \<le> g" for g :: real
  proof -
    have "nf * (17 / 20) \<le> nf * g"
      using that nf0 by (rule mult_left_mono)
    with base show ?thesis by linarith
  qed
  have small: "(81 / 100) * v\<^sup>2 \<le> 10000" if "v \<le> 1 / 2"
  proof -
    have "v * v \<le> (1 / 2) * (1 / 2)"
      by (intro mult_mono) (use that v0 in simp_all)
    then show ?thesis by (simp add: power2_eq_square)
  qed
  have g: "17 / 20 \<le> 17 / 20 + (7 / 5 - 17 / 20) * (v * (18 / 5) / 100)"
    using v0 by simp
  have "(81 / 100) * v\<^sup>2
          \<le> (if v * (18 / 5) < 100
              then min (if v > 1 / 2 then pw / v else 10000 * (100 / 100))
                       (nf * (17 / 20 + (7 / 5 - 17 / 20) * (v * (18 / 5) / 100)))
              else min (pw / v) (nf * (7 / 5)))"
  proof (cases "v * (18 / 5) < 100")
    case True
    show ?thesis
    proof (cases "v > 1 / 2")
      case True
      then have "0 < v" by simp
      from pwv[OF this] low[OF g] show ?thesis
        using \<open>v * (18 / 5) < 100\<close> True by (simp only: if_True min.bounded_iff)
    next
      case False
      then have "v \<le> 1 / 2" by simp
      from small[OF this] low[OF g] show ?thesis
        using \<open>v * (18 / 5) < 100\<close> False by (simp only: if_True if_False min.bounded_iff) simp
    qed
  next
    case False
    then have "0 < v" by simp
    from pwv[OF this] low[of "7 / 5"] show ?thesis
      using False by (simp only: if_False min.bounded_iff)
  qed
  then show ?thesis
    unfolding traction_default t v_def nf_def .
qed


lemma engine_stage_parts:
  assumes "engine_stage sim s nf = Inr (ef, s2)"
    and "1 \<le> gear s" "gear s \<le> int (length (gear_ratios (physics sim)))"
  shows "\<exists>pw rp. calculate_engine_power sim rp (throttle s) = Inr pw
           \<and> s2 = s\<lparr>rpm := rp\<rparr> \<and> ef = traction_limited sim s2 pw nf"
  using assms
  by (auto simp: engine_stage_def Let_def split: sum.splits)

lemma update_car_state_parts:
  assumes "update_car_state sim s thr brk steer = Inr s'"
  shows "\<exists>ef s2.
           engine_stage sim
             (s\<lparr>throttle := clip thr 0 100, brake := clip brk 0 100,
                steering := clip steer (- 1) 1\<rparr>)
             (mass (physics sim) * gravity sim
              + snd (calculate_aerodynamic_forces sim (speed s))) = Inr (ef, s2)
           \<and> speed s' =
               max 0 (speed s2
                      + (ef - fst (calculate_aerodynamic_forces sim (speed s))
                            - calculate_braking_force sim (brake s2) (speed s2)
                                (snd (calculate_aerodynamic_forces sim (speed s))))
                        / mass (physics sim) * dt sim)
           \<and> s' = gearbox_stage sim (move_stage sim (turn_stage sim
                     (s2\<lparr>speed := speed s'\<rparr>)))"
  using assms
  by (auto simp: update_car_state_def Let_def split: sum.splits prod.splits if_splits)

lemma braking_zero:
  "0 \<le> df \<Longrightarrow> calculate_braking_force (new_simulator CarPhysics_default) 0 v df = 0"
  by (simp add: calculate_braking_force_def Let_def new_simulator_def CarPhysics_default_def)

lemma full_throttle_step_mono:
  assumes g: "1 \<le> gear s" "gear s \<le> 8"
    and v: "0 \<le> speed s" "speed s \<le> 76"
    and u: "update_car_state (new_simulator CarPhysics_default) s 100 0 0 = Inr s'"
  shows "speed s \<le> speed s'"
proof -
  let ?sim = "new_simulator CarPhysics_default"
  let ?s1 = "s\<lparr>throttle := clip 100 0 100, brake := clip 0 0 100,
                steering := clip 0 (- 1) 1\<rparr>"
  have aero: "calculate_aerodynamic_forces ?sim (speed s)
               = ((81 / 100) * (speed s)\<^sup>2, (27 / 10) * (speed s)\<^sup>2)"
    by (simp add: calculate_aerodynamic_forces_def Let_def new_simulator_def
        CarPhysics_default_def)
  have cs: "mass (physics ?sim) = 798" "gravity ?sim = 981 / 100" "dt ?sim = 1 / 100"
    "length (gear_ratios (physics ?sim)) = 8"
    by (simp_all add: new_simulator_def CarPhysics_default_def)
  from update_car_state_parts[OF u] obtain ef s2 where
    e: "engine_stage ?sim ?s1 (798 * (981 / 100) + (27 / 10) * (speed s)\<^sup>2) = Inr (ef, s2)"
    and sp: "speed s' = max 0 (speed s2 + (ef - (81 / 100) * (speed s)\<^sup>2
                 - calculate_braking_force ?sim (brake s2) (speed s2)
                     ((27 / 10) * (speed s)\<^sup>2)) / 798 * (1 / 100))"
    by (auto simp: aero cs)
  from engine_stage_parts[OF e] g obtain pw rp where
    p: "calculate_engine_power ?sim rp (throttle ?s1) = Inr pw"
    and s2: "s2 = ?s1\<lparr>rpm := rp\<rparr>"
    and ef: "ef = traction_limited ?sim s2 pw (798 * (981 / 100) + (27 / 10) * (speed s)\<^sup>2)"
    by (auto simp: cs)
  have f2: "speed s2 = speed s" "throttle s2 = 100" "brake s2 = 0"
    by (simp_all add: s2 clip_def)
  from p engine_power_lower[of rp] have pl: "357000 \<le> pw"
    by (auto simp: clip_def)
  from traction_lower[of s2 pw] v pl have ge: "(81 / 100) * (speed s)\<^sup>2 \<le> ef"
    by (simp add: f2 ef)
  have br: "calculate_braking_force ?sim 0 (speed s) ((27 / 10) * (speed s)\<^sup>2) = 0"
    by (rule braking_zero) simp
  from sp have sp': "speed s' = max 0 (speed s + (ef - (81 / 100) * (speed s)\<^sup>2 - 0)
                                        / 798 * (1 / 100))"
    unfolding f2 br .
  from ge have "0 \<le> (ef - (81 / 100) * (speed s)\<^sup>2 - 0) / 798 * (1 / 100)"
    by simp
  with sp' show ?thesis
    by linarith
qed



lemma engine_stage_rpm:
  assumes "engine_stage sim s nf = Inr (ef, s2)"
    and "1 \<le> gear s" "gear s \<le> int (length (gear_ratios (physics sim)))"
  shows "rpm s2 = max (idle_rpm (physics sim))
                    (min (if speed s > 0.1
                          then py_int ((speed s * 60) / (2 * pi * 0.33)
                                 * (gear_ratios (physics sim) ! nat (gear s - 1))
                                 * final_drive (physics sim))
                          else idle_rpm (physics sim))
                       (max_rpm (physics sim)))
         \<and> gear s2 = gear s \<and> speed s2 = speed s"
  using assms
  by (auto simp: engine_stage_def Let_def split: sum.splits)

lemma gear_after_update:
  assumes "update_car_state sim s thr brk steer = Inr s'"
    and "1 \<le> gear s" "gear s \<le> int (length (gear_ratios (physics sim)))"
  shows "\<exists>s2. rpm s2 = max (idle_rpm (physics sim))
                    (min (if speed s > 0.1
                          then py_int ((speed s * 60) / (2 * pi * 0.33)
                                 * (gear_ratios (physics sim) ! nat (gear s - 1))
                                 * final_drive (physics sim))
                          else idle_rpm (physics sim))
                       (max_rpm (physics sim)))
           \<and> gear s2 = gear s
           \<and> gear s' = gear (gearbox_stage sim s2)"
proof -
  from update_car_state_parts[OF assms(1)] obtain ef s2 where
    e: "engine_stage sim
             (s\<lparr>throttle := clip thr 0 100, brake := clip brk 0 100,
                steering := clip steer (- 1) 1\<rparr>)
             (mass (physics sim) * gravity sim
              + snd (calculate_aerodynamic_forces sim (speed s))) = Inr (ef, s2)"
    and s': "s' = gearbox_stage sim (move_stage sim (turn_stage sim (s2\<lparr>speed := speed s'\<rparr>)))"
    by blast
  have g: "gear (gearbox_stage sim (move_stage sim (turn_stage sim (s2\<lparr>speed := v\<rparr>))))
           = gear (gearbox_stage sim s2)" for v
    by (simp add: gearbox_stage_def move_stage_def turn_stage_def Let_def)
  from engine_stage_rpm[OF e] assms(2,3) s' g[of "speed s'"] show ?thesis
    by (intro exI[of _ s2]) simp
qed

lemma no_shift_speed_bound:
  assumes u: "update_car_state (new_simulator CarPhysics_default) s 100 0 0 = Inr s'"
    and g: "gear s = 1" "gear s' = 1" and v: "0 \<le> speed s"
  shows "speed s < 52"
proof (cases "speed s > 0.1")
  case False
  then show ?thesis by simp
next
  case True
  let ?w = "(speed s * 60) / (2 * pi * 0.33) * (7 / 2) * (7 / 2)"
  from gear_after_update[OF u] g obtain s2 where
    r: "rpm s2 = max 5000 (min (py_int ?w) 15000)" and g2: "gear s2 = 1"
    and gs: "gear (gearbox_stage (new_simulator CarPhysics_default) s2) = 1"
    using True by (auto simp: new_simulator_def CarPhysics_default_def)
  from gs g2 have "\<not> of_int (rpm s2) > (14250 :: real)"
    by (auto simp: gearbox_stage_def Let_def new_simulator_def CarPhysics_default_def
        split: if_splits)
  then have "rpm s2 \<le> 14250" by linarith
  with r have k: "py_int ?w \<le> 14250" by linarith
  have w0: "0 \<le> ?w" using v by simp
  with k have "\<lfloor>?w\<rfloor> \<le> 14250" by (simp add: py_int_def)
  then have "?w < 14251" by linarith
  then have "speed s * 735 < 14251 * (2 * pi * (33 / 100))"
    by (simp add: pos_divide_less_eq)
  moreover have "14251 * (2 * pi * (33 / 100)) < 14251 * (2 * 4 * (33 / 100))"
    using pi_less_4 by simp
  ultimately show ?thesis by simp
qed

lemma traction_upper:
  assumes v: "0 \<le> speed s" "speed s \<le> 52"
  shows "traction_limited (new_simulator CarPhysics_default) s pw
              (798 * (981 / 100) + (27 / 10) * (speed s)\<^sup>2) \<le> 21300"
proof -
  define v where "v = speed s"
  define nf where "nf = 798 * (981 / 100) + (27 / 10) * v\<^sup>2"
  have v0: "0 \<le> v" and v52: "v \<le> 52" using v by (simp_all add: v_def)
  have "v * v \<le> 52 * 52" by (intro mult_mono) (use v0 v52 in simp_all)
  then have sq: "v\<^sup>2 \<le> 2704" "0 \<le> v\<^sup>2" by (simp_all add: power2_eq_square)
  then have nf: "0 \<le> nf" "nf \<le> 15200" by (simp_all add: nf_def)
  have up: "nf * g \<le> 21300" if "0 \<le> g" "g \<le> 7 / 5" for g :: real
  proof -
    have "nf * g \<le> 15200 * (7 / 5)"
      by (intro mult_mono) (use nf that in simp_all)
    then show ?thesis by simp
  qed
  have "(if v * (18 / 5) < 100
          then min (if v > 1 / 2 then pw / v else 10000 * (throttle s / 100))
                   (nf * (17 / 20 + (7 / 5 - 17 / 20) * (v * (18 / 5) / 100)))
          else min (pw / v) (nf * (7 / 5))) \<le> 21300"
  proof (cases "v * (18 / 5) < 100")
    case True
    then have "0 \<le> 17 / 20 + (7 / 5 - 17 / 20) * (v * (18 / 5) / 100)"
      "17 / 20 + (7 / 5 - 17 / 20) * (v * (18 / 5) / 100) \<le> 7 / 5"
      using v0 by simp_all
    from up[OF this] True show ?thesis
      by (simp only: if_True min_le_iff_disj) simp
  next
    case False
    from up[of "7 / 5"] False show ?thesis
      by (simp only: if_False min_le_iff_disj) simp
  qed
  then show ?thesis
    unfolding traction_default v_def nf_def .
qed



lemma full_throttle_step_upper:
  assumes g: "1 \<le> gear s" "gear s \<le> 8"
    and v: "0 \<le> speed s" "speed s \<le> 52"
    and u: "update_car_state (new_simulator CarPhysics_default) s 100 0 0 = Inr s'"
  shows "speed s' \<le> speed s + 1"
proof -
  let ?sim = "new_simulator CarPhysics_default"
  let ?s1 = "s\<lparr>throttle := clip 100 0 100, brake := clip 0 0 100,
                steering := clip 0 (- 1) 1\<rparr>"
  have aero: "calculate_aerodynamic_forces ?sim (speed s)
               = ((81 / 100) * (speed s)\<^sup>2, (27 / 10) * (speed s)\<^sup>2)"
    by (simp add: calculate_aerodynamic_forces_def Let_def new_simulator_def
        CarPhysics_default_def)
  have cs: "mass (physics ?sim) = 798" "gravity ?sim = 981 / 100" "dt ?sim = 1 / 100"
    "length (gear_ratios (physics ?sim)) = 8"
    by (simp_all add: new_simulator_def CarPhysics_default_def)
  from update_car_state_parts[OF u] obtain ef s2 where
    e: "engine_stage ?sim ?s1 (798 * (981 / 100) + (27 / 10) * (speed s)\<^sup>2) = Inr (ef, s2)"
    and sp: "speed s' = max 0 (speed s2 + (ef - (81 / 100) * (speed s)\<^sup>2
                 - calculate_braking_force ?sim (brake s2) (speed s2)
                     ((27 / 10) * (speed s)\<^sup>2)) / 798 * (1 / 100))"
    by (auto simp: aero cs)
  from engine_stage_parts[OF e] g obtain pw rp where
    s2: "s2 = ?s1\<lparr>rpm := rp\<rparr>"
    and ef: "ef = traction_limited ?sim s2 pw (798 * (981 / 100) + (27 / 10) * (speed s)\<^sup>2)"
    by (auto simp: cs)
  have f2: "speed s2 = speed s" "throttle s2 = 100" "brake s2 = 0"
    by (simp_all add: s2 clip_def)
  from traction_upper[of s2 pw] v have le: "ef \<le> 21300"
    by (simp add: f2 ef)
  have br: "calculate_braking_force ?sim 0 (speed s) ((27 / 10) * (speed s)\<^sup>2) = 0"
    by (rule braking_zero) simp
  from sp have sp': "speed s' = max 0 (speed s + (ef - (81 / 100) * (speed s)\<^sup>2 - 0)
                                        / 798 * (1 / 100))"
    unfolding f2 br .
  have "0 \<le> (81 / 100) * (speed s)\<^sup>2" by simp
  with le have "ef - (81 / 100) * (speed s)\<^sup>2 - 0 \<le> 79800" by linarith
  then have "(ef - (81 / 100) * (speed s)\<^sup>2 - 0) / 798 * (1 / 100) \<le> 1"
    by simp
  with sp' v show ?thesis
    by linarith
qed

lemma accelerate_speed:
  "0 \<le> speed s0 \<Longrightarrow> accelerate s0 n = Inr s \<Longrightarrow> 0 \<le> speed s"
  by (cases n) (auto split: sum.splits dest: update_car_state_speed)

lemma accelerate_total: "\<exists>s. accelerate s0 n = Inr s"
proof (induction n)
  case 0
  show ?case by simp
next
  case (Suc n)
  then obtain s where s: "accelerate s0 n = Inr s" by blast
  have "\<exists>s'. update_car_state (new_simulator CarPhysics_default) s 100 0 0 = Inr s'"
    by (rule update_car_state_total) (simp_all add: new_simulator_def CarPhysics_default_def)
  with s show ?case by simp
qed

text \<open>At rest the engine idles: a car in a gear above the first shifts down on the
  first tick.\<close>

lemma update_at_rest:
  assumes "speed s = 0"
  shows "\<exists>s'. update_car_state (new_simulator CarPhysics_default) s 100 0 0 = Inr s'
           \<and> gear s' = (if 1 < gear s then gear s - 1 else gear s)
           \<and> (gear s < 1 \<longrightarrow> speed s' = 0)"
  using assms
  by (simp add: update_car_state_def Let_def new_simulator_def CarPhysics_default_def
      calculate_aerodynamic_forces_def engine_stage_def calculate_engine_power_def
      traction_limited_def calculate_braking_force_def clip_def
      turn_stage_def move_stage_def gearbox_stage_def)

lemma accelerate_no_gear:
  assumes "speed s0 = 0" "gear s0 < 1"
  shows "accelerate s0 n = Inr s \<Longrightarrow> speed s = 0 \<and> gear s = gear s0"
proof (induction n arbitrary: s)
  case 0
  with assms show ?case by simp
next
  case (Suc n)
  from accelerate_total[of s0 n] obtain sn where sn: "accelerate s0 n = Inr sn" by blast
  from Suc.IH[OF sn] have a: "speed sn = 0" "gear sn = gear s0" by simp_all
  from Suc.prems sn have "update_car_state (new_simulator CarPhysics_default) sn 100 0 0 = Inr s"
    by simp
  with update_at_rest[OF a(1)] a(2) assms(2) show ?case by auto
qed

lemma accelerate_first:
  "\<exists>s1. accelerate CarState_default (Suc 0) = Inr s1 \<and> gear s1 = 1"
  using update_at_rest[of CarState_default]
  by (auto simp: CarState_default_def)

text \<open>
  Claim C10.  \<open>accelerate s0 n\<close> is the state after \<open>n\<close> ticks of full throttle, no
  brake and no steering from a state \<open>s0\<close> at rest, with the default parameter set.  As
  long as no gear shift has happened in the first \<open>n\<close> ticks (the gear of every state
  up to the \<open>n\<close>-th is the one the car started in), tick \<open>n + 1\<close> does not lower the
  speed: the speeds are non-decreasing up to and including the tick on which the first
  shift happens.
\<close>

theorem full_throttle_speed_monotone:
  assumes "speed s0 = 0"
    and "accelerate s0 n = Inr s" and "accelerate s0 (Suc n) = Inr s'"
    and "\<forall>k \<le> n. \<forall>sk. accelerate s0 k = Inr sk \<longrightarrow> gear sk = gear s0"
  shows "speed s \<le> speed s'"
proof -
  from assms(2,3) have u: "update_car_state (new_simulator CarPhysics_default) s 100 0 0 = Inr s'"
    by simp
  from assms(2,4) have g: "gear s = gear s0" by blast
  from accelerate_speed[OF _ assms(2)] assms(1) have v0: "0 \<le> speed s" by simp
  show ?thesis
  proof (cases n)
    case 0
    with assms(1,2) have "speed s = 0" by simp
    with update_car_state_speed[OF u] show ?thesis by simp
  next
    case (Suc m)
    from accelerate_total[of s0 m] obtain sm where sm: "accelerate s0 m = Inr sm" by blast
    with assms(2) Suc have um:
      "update_car_state (new_simulator CarPhysics_default) sm 100 0 0 = Inr s"
      by simp
    have "m \<le> n" using Suc by simp
    with assms(4) sm have gm: "gear sm = gear s0" by blast
    from accelerate_speed[OF _ sm] assms(1) have vm: "0 \<le> speed sm" by simp
    from accelerate_total[of s0 "Suc 0"] obtain s1 where s1: "accelerate s0 (Suc 0) = Inr s1"
      by blast
    have "Suc 0 \<le> n" using Suc by simp
    with assms(4) s1 have g1: "gear s1 = gear s0" by blast
    from s1 have "update_car_state (new_simulator CarPhysics_default) s0 100 0 0 = Inr s1"
      by simp
    with update_at_rest[OF assms(1)] g1 have low: "\<not> 1 < gear s0"
      by (auto split: if_splits)
    show ?thesis
    proof (cases "gear s0 = 1")
      case True
      from no_shift_speed_bound[OF um _ _ vm] gm g True have "speed sm < 52" by simp
      with full_throttle_step_upper[OF _ _ vm _ um] gm True have "speed s \<le> 76" by simp
      with full_throttle_step_mono[OF _ _ v0 _ u] g True show ?thesis by simp
    next
      case False
      with low have l: "gear s0 < 1" by simp
      from accelerate_no_gear[OF assms(1) l assms(2)] accelerate_no_gear[OF assms(1) l assms(3)]
      show ?thesis by simp
    qed
  qed
qed

theorem full_throttle_speed_monotone_witness:
  "\<exists>s1 s2. speed CarState_default = 0
        \<and> accelerate CarState_default (Suc 0) = Inr s1
        \<and> accelerate CarState_default (Suc (Suc 0)) = Inr s2
        \<and> gear CarState_default = 1 \<and> gear s1 = 1 \<and> speed s1 \<le> speed s2"
proof -
  from accelerate_first obtain s1 where
    s1: "accelerate CarState_default (Suc 0) = Inr s1" and g1: "gear s1 = 1" by blast
  from accelerate_total[of CarState_default "Suc (Suc 0)"] obtain s2 where
    s2: "accelerate CarState_default (Suc (Suc 0)) = Inr s2" by blast
  have g0: "gear CarState_default = 1" and v0: "speed CarState_default = 0"
    by (simp_all add: CarState_default_def)
  have g: "\<forall>k \<le> Suc 0. \<forall>sk. accelerate CarState_default k = Inr sk
             \<longrightarrow> gear sk = gear CarState_default"
  proof (intro allI impI)
    fix k sk
    assume "k \<le> Suc 0" and a: "accelerate CarState_default k = Inr sk"
    then have "k = 0 \<or> k = Suc 0" by linarith
    with a s1 g1 g0 show "gear sk = gear CarState_default"
      by auto
  qed
  from full_throttle_speed_monotone[OF v0 s1 s2 g] s1 s2 g0 g1 v0 show ?thesis
    by blast
qed


end
